theory Spec2Isabelle
  imports Main
begin

section \<open>Go values shared by the packages\<close>

text \<open>
  A Go \<^verbatim>\<open>[]byte\<close> and a Go \<^verbatim>\<open>string\<close> are byte sequences. A Go \<^verbatim>\<open>error\<close> is either
  a plain message (\<^verbatim>\<open>errors.New\<close>, or \<^verbatim>\<open>fmt.Errorf\<close> without \<^verbatim>\<open>%w\<close>) or a message prefix
  wrapped around another error (\<^verbatim>\<open>fmt.Errorf("prefix: %w", err)\<close>). A call ends with a
  value, with an error, or in a run-time panic (nil dereference, failed type assertion).
\<close>

type_synonym bytes = string

datatype go_error = errors_New string | fmt_Errorf_w string go_error

fun Error :: "go_error \<Rightarrow> string" where
  "Error (errors_New s) = s"
| "Error (fmt_Errorf_w p e) = p @ Error e"

datatype fault = Err go_error | Panic string

text \<open>
  A \<^verbatim>\<open>uuid.UUID\<close> is identified with its canonical text form, so \<^verbatim>\<open>String()\<close> returns
  the value itself; \<^verbatim>\<open>uuid.Nil\<close> is the all-zero UUID.
\<close>

type_synonym uuid = string

definition uuid_Nil :: uuid where
  "uuid_Nil = ''00000000-0000-0000-0000-000000000000''"

definition uuid_String :: "uuid \<Rightarrow> string" where
  "uuid_String u = u"

section \<open>Package models\<close>

text \<open>\<^verbatim>\<open>models.Account\<close>: the row type of table \<^verbatim>\<open>accounts\<close> (email unique, soft delete).\<close>

record models_Account =
  ID :: uuid
  Email :: string
  CreatedAt :: nat
  UpdatedAt :: nat
  DeletedAt :: "nat option"

definition zero_models_Account :: models_Account where
  "zero_models_Account =
     \<lparr>ID = uuid_Nil, Email = [], CreatedAt = 0, UpdatedAt = 0, DeletedAt = None\<rparr>"

text \<open>\<^verbatim>\<open>models.Certificate\<close>; its \<^verbatim>\<open>Account\<close> relation field is never filled by the code.\<close>

record models_Certificate =
  cert_ID :: uuid
  AccountID :: uuid
  Domains :: "string list"
  cert_Account :: models_Account

text \<open>\<^verbatim>\<open>Account.TableName\<close>, and the table name the ORM derives for a model without one.\<close>

datatype model = Account_model | Certificate_model

fun TableName :: "model \<Rightarrow> string" where
  "TableName Account_model = ''accounts''"
| "TableName Certificate_model = ''certificates''"

section \<open>The collaborators: libraries, stores, ACME client\<close>

datatype crypto_PrivateKey = rsa_PrivateKey string | other_PrivateKey string

record pem_Block =
  Type :: string
  Headers :: "(string \<times> string) list"
  Bytes :: bytes

text \<open>
  Pure library functions the code calls: \<^verbatim>\<open>govalidator.IsEmail\<close>,
  \<^verbatim>\<open>x509.MarshalPKCS8PrivateKey\<close>, \<^verbatim>\<open>x509.ParsePKCS8PrivateKey\<close>, \<^verbatim>\<open>pem.EncodeToMemory\<close>
  and \<^verbatim>\<open>pem.Decode\<close> (a nil block is \<open>None\<close>). They are parameters of the model.
\<close>

record lib =
  IsEmail :: "string \<Rightarrow> bool"
  MarshalPKCS8PrivateKey :: "crypto_PrivateKey \<Rightarrow> go_error + bytes"
  ParsePKCS8PrivateKey :: "bytes \<Rightarrow> go_error + crypto_PrivateKey"
  pem_EncodeToMemory :: "pem_Block \<Rightarrow> bytes"
  pem_Decode :: "bytes \<Rightarrow> pem_Block option"

text \<open>\<^verbatim>\<open>certificate.Resource\<close> of the ACME library: the issued material.\<close>

record certificate_Resource =
  res_Domain :: string
  CertURL :: string
  Certificate :: bytes
  IssuerCertificate :: bytes

text \<open>
  \<^verbatim>\<open>LetsEncryptAccount\<close> (the ACME user) and the ACME client built for it; the client
  remembers which challenge providers have been set on it.
\<close>

record LetsEncryptAccount =
  le_Email :: string
  Registration :: "string option"
  Key :: "string option"

record lego_Client =
  User :: "LetsEncryptAccount option"
  HTTP01Provider :: "string option"
  DNS01Provider :: "string option"

text \<open>
  What the outside world answers during one call: the identifiers drawn, the clock, and
  for every call to a collaborator whether it fails and with which error.
  \<open>Create_error\<close> is an error the ORM reports on \<^verbatim>\<open>Create\<close> without reaching the hook
  and the INSERT (connection lost, transaction not started).
\<close>

record env =
  uuid_New :: uuid
  First_error :: "go_error option"
  Create_error :: "go_error option"
  gen_random_uuid :: uuid
  time_Now :: nat
  PutObject_error :: "go_error option"
  GetObject_error :: "go_error option"
  rsa_GenerateKey :: "go_error + string"
  lego_NewClient_error :: "go_error option"
  NewDNSProviderManual_error :: "go_error option"
  SetHTTP01Provider_error :: "go_error option"
  SetDNS01Provider_error :: "go_error option"
  Obtain :: "string list \<Rightarrow> bool \<Rightarrow> go_error + certificate_Resource"

text \<open>Every call that leaves the process, in the order made (failed calls included).\<close>

datatype event =
    DB_First string
  | DB_Create string
  | S3_PutObject string bytes
  | S3_GetObject string
  | ACME_NewClient
  | ACME_SetHTTP01Provider
  | ACME_SetDNS01Provider
  | ACME_Obtain "string list" bool

fun is_write :: "event \<Rightarrow> bool" where
  "is_write (DB_Create _) = True"
| "is_write (S3_PutObject _ _) = True"
| "is_write _ = False"

fun is_DB :: "event \<Rightarrow> bool" where
  "is_DB (DB_First _) = True"
| "is_DB (DB_Create _) = True"
| "is_DB _ = False"

fun is_PutObject :: "event \<Rightarrow> bool" where
  "is_PutObject (S3_PutObject _ _) = True"
| "is_PutObject _ = False"

text \<open>
  The state outside the process: the rows of table \<^verbatim>\<open>accounts\<close> in the relational
  store, the objects of the bucket, and the log of calls.
\<close>

record world =
  accounts :: "models_Account list"
  objects :: "string \<rightharpoonup> bytes"
  trace :: "event list"

definition emit :: "event \<Rightarrow> world \<Rightarrow> world" where
  "emit ev w = w\<lparr>trace := trace w @ [ev]\<rparr>"

section \<open>Package database\<close>

text \<open>
  \<^verbatim>\<open>NewConnection\<close>: opens the connection (a failure ends the process through
  \<^verbatim>\<open>log.Fatal\<close>, here \<open>None\<close>) and migrates the models listed in its \<^verbatim>\<open>AutoMigrate\<close> call.
\<close>

record DatabaseConnection =
  Host :: string
  Port :: int
  DB_User :: string
  Password :: string
  DB_Database :: string

record Database =
  Connection :: DatabaseConnection
  migrated :: "model list"

definition NewConnection ::
  "go_error option \<Rightarrow> string \<Rightarrow> int \<Rightarrow> string \<Rightarrow> string \<Rightarrow> string \<Rightarrow> Database option" where
  "NewConnection gorm_Open_error host port user password database =
     (let connection = \<lparr>Host = host, Port = port, DB_User = user, Password = password,
                         DB_Database = database\<rparr>
      in case gorm_Open_error of
           Some err \<Rightarrow> None
         | None \<Rightarrow> Some \<lparr>Connection = connection, migrated = [Account_model]\<rparr>)"

text \<open>
  \<^verbatim>\<open>cnx.Database.Where("email = ?", e).First(&existingAccount)\<close>: the destination keeps
  its zero value unless a row that is not soft-deleted matches. The unique constraint on
  email leaves at most one matching row.
\<close>

definition ErrRecordNotFound :: go_error where
  "ErrRecordNotFound = errors_New ''record not found''"

definition First :: "env \<Rightarrow> string \<Rightarrow> world \<Rightarrow> (models_Account \<times> go_error option) \<times> world" where
  "First e email w =
     (let w1 = emit (DB_First email) w
      in case First_error e of
           Some err \<Rightarrow> ((zero_models_Account, Some err), w1)
         | None \<Rightarrow>
             (case find (\<lambda>r. Email r = email \<and> DeletedAt r = None) (accounts w) of
                None \<Rightarrow> ((zero_models_Account, Some ErrRecordNotFound), w1)
              | Some r \<Rightarrow> ((r, None), w1)))"

text \<open>\<^verbatim>\<open>Account.BeforeCreate\<close>, the hook the ORM runs before the INSERT.\<close>

definition BeforeCreate :: "lib \<Rightarrow> string \<Rightarrow> go_error option" where
  "BeforeCreate l email =
     (if \<not> IsEmail l email then Some (errors_New ''email address is not valid'') else None)"

text \<open>
  \<^verbatim>\<open>cnx.Database.Create(&newAccount)\<close>: hook, then the INSERT under the constraints of the
  table (primary key, unique email); an empty ID takes the column default
  \<^verbatim>\<open>gen_random_uuid()\<close>, the timestamps are set, and the row is written back to the value.
\<close>

definition duplicate_key :: "string \<Rightarrow> go_error" where
  "duplicate_key c =
     errors_New (''ERROR: duplicate key value violates unique constraint '' @ c)"

definition Create ::
  "lib \<Rightarrow> env \<Rightarrow> models_Account \<Rightarrow> world \<Rightarrow> (models_Account \<times> go_error option) \<times> world" where
  "Create l e a w =
     (let w1 = emit (DB_Create (Email a)) w
      in case Create_error e of
           Some err \<Rightarrow> ((a, Some err), w1)
         | None \<Rightarrow>
             (case BeforeCreate l (Email a) of
                Some err \<Rightarrow> ((a, Some err), w1)
              | None \<Rightarrow>
                  (let row = a\<lparr>ID := (if ID a = uuid_Nil then gen_random_uuid e else ID a),
                               CreatedAt := time_Now e, UpdatedAt := time_Now e\<rparr>
                   in if ID row \<in> set (map ID (accounts w))
                      then ((a, Some (duplicate_key ''accounts_pkey'')), w1)
                      else if Email row \<in> set (map Email (accounts w))
                      then ((a, Some (duplicate_key ''accounts_email_key'')), w1)
                      else ((row, None), w1\<lparr>accounts := accounts w1 @ [row]\<rparr>))))"

section \<open>Package store\<close>

text \<open>\<^verbatim>\<open>Storage.Save\<close>: one \<^verbatim>\<open>PutObject\<close>; on an error nothing is stored.\<close>

definition Save :: "env \<Rightarrow> string \<Rightarrow> bytes \<Rightarrow> world \<Rightarrow> go_error option \<times> world" where
  "Save e key data w =
     (let w1 = emit (S3_PutObject key data) w
      in case PutObject_error e of
           Some err \<Rightarrow> (Some err, w1)
         | None \<Rightarrow> (None, w1\<lparr>objects := (objects w1)(key \<mapsto> data)\<rparr>))"

definition SavePrivateKey ::
  "lib \<Rightarrow> env \<Rightarrow> string \<Rightarrow> crypto_PrivateKey \<Rightarrow> world \<Rightarrow> go_error option \<times> world" where
  "SavePrivateKey l e id' key w =
     (case MarshalPKCS8PrivateKey l key of
        Inl err \<Rightarrow> (Some err, w)
      | Inr keyBytes \<Rightarrow>
          (let pemBlock = \<lparr>Type = ''PRIVATE KEY'', Headers = [], Bytes = keyBytes\<rparr>;
               pemBytes = pem_EncodeToMemory l pemBlock
           in Save e id' pemBytes w))"

definition SaveCertificate ::
  "env \<Rightarrow> string \<Rightarrow> certificate_Resource \<Rightarrow> world \<Rightarrow> go_error option \<times> world" where
  "SaveCertificate e id' cert w = Save e id' (Certificate cert) w"

text \<open>\<^verbatim>\<open>Storage.Read\<close>: \<^verbatim>\<open>GetObject\<close> and \<^verbatim>\<open>io.ReadAll\<close>; a missing key is an error.\<close>

definition NoSuchKey :: go_error where
  "NoSuchKey = errors_New ''The specified key does not exist.''"

definition Read :: "env \<Rightarrow> string \<Rightarrow> world \<Rightarrow> (go_error + bytes) \<times> world" where
  "Read e key w =
     (let w1 = emit (S3_GetObject key) w
      in case GetObject_error e of
           Some err \<Rightarrow> (Inl err, w1)
         | None \<Rightarrow>
             (case objects w key of
                None \<Rightarrow> (Inl NoSuchKey, w1)
              | Some data \<Rightarrow> (Inr data, w1)))"

text \<open>
  \<^verbatim>\<open>Storage.ReadPrivateKey\<close> returns the pair (key, err) of the source, either of which
  may be nil: when \<^verbatim>\<open>pem.Decode\<close> finds no block the function returns the \<^verbatim>\<open>err\<close> of the
  successful \<^verbatim>\<open>Read\<close>, which is nil, beside a nil key.
\<close>

definition ReadPrivateKey ::
  "lib \<Rightarrow> env \<Rightarrow> string \<Rightarrow> world \<Rightarrow> (crypto_PrivateKey option \<times> go_error option) \<times> world" where
  "ReadPrivateKey l e id' w =
     (case Read e id' w of
        (Inl err, w1) \<Rightarrow> ((None, Some err), w1)
      | (Inr data, w1) \<Rightarrow>
          (case pem_Decode l data of
             None \<Rightarrow> ((None, None), w1)
           | Some block \<Rightarrow>
               (case ParsePKCS8PrivateKey l (Bytes block) of
                  Inl err \<Rightarrow> ((None, Some err), w1)
                | Inr key \<Rightarrow> ((Some key, None), w1))))"

section \<open>Package account\<close>

text \<open>
  \<^verbatim>\<open>account.Account\<close> embeds \<^verbatim>\<open>models.Account\<close>; its pointer fields are options.
\<close>

record account_Account = models_Account +
  PrivateKey :: "crypto_PrivateKey option"
  LetsEncryptUser :: "LetsEncryptAccount option"
  Client :: "lego_Client option"

definition zero_account_Account :: account_Account where
  "zero_account_Account =
     \<lparr>ID = uuid_Nil, Email = [], CreatedAt = 0, UpdatedAt = 0, DeletedAt = None,
      PrivateKey = None, LetsEncryptUser = None, Client = None\<rparr>"

text \<open>The type assertion \<^verbatim>\<open>key.(*rsa.PrivateKey)\<close>; \<open>None\<close> is the panic.\<close>

fun rsa_assert :: "crypto_PrivateKey option \<Rightarrow> string option" where
  "rsa_assert (Some (rsa_PrivateKey k)) = Some k"
| "rsa_assert _ = None"

definition CreateClient :: "env \<Rightarrow> account_Account \<Rightarrow> world \<Rightarrow> (go_error + lego_Client) \<times> world" where
  "CreateClient e a w =
     (let w1 = emit ACME_NewClient w
      in case lego_NewClient_error e of
           Some err \<Rightarrow> (Inl err, w1)
         | None \<Rightarrow>
             (Inr \<lparr>User = LetsEncryptUser a, HTTP01Provider = None, DNS01Provider = None\<rparr>, w1))"

text \<open>\<^verbatim>\<open>certcrypto.GeneratePrivateKey(certcrypto.RSA2048)\<close> yields an RSA key or an error.\<close>

definition GeneratePrivateKey_RSA2048 :: "env \<Rightarrow> go_error + crypto_PrivateKey" where
  "GeneratePrivateKey_RSA2048 e =
     (case rsa_GenerateKey e of Inl err \<Rightarrow> Inl err | Inr k \<Rightarrow> Inr (rsa_PrivateKey k))"

definition CreatePrivateKey ::
  "lib \<Rightarrow> env \<Rightarrow> account_Account \<Rightarrow> world
     \<Rightarrow> (account_Account \<times> (go_error + crypto_PrivateKey)) \<times> world" where
  "CreatePrivateKey l e a w =
     (case GeneratePrivateKey_RSA2048 e of
        Inl err \<Rightarrow> ((a, Inl err), w)
      | Inr accountPrivateKey \<Rightarrow>
          (case SavePrivateKey l e (uuid_String (ID a)) accountPrivateKey w of
             (Some err, w1) \<Rightarrow> ((a, Inl err), w1)
           | (None, w1) \<Rightarrow>
               ((a\<lparr>PrivateKey := Some accountPrivateKey\<rparr>, Inr accountPrivateKey), w1)))"

text \<open>
  \<^verbatim>\<open>NewAccount\<close>. The error of the lookup is cleared when it is "record not found" and
  is never read afterwards: only the ID of the destination decides the branch.
\<close>

definition NewAccount ::
  "lib \<Rightarrow> env \<Rightarrow> string \<Rightarrow> world \<Rightarrow> (fault + account_Account) \<times> world" where
  "NewAccount l e email w =
     (let account = zero_account_Account\<lparr>Email := email\<rparr>
      in case First e (Email account) w of
        ((existingAccount, err), w1) \<Rightarrow>
          (let err1 = (if err \<noteq> None \<and> map_option Error err = Some ''record not found''
                       then None else err)
           in if ID existingAccount \<noteq> uuid_Nil
              then
                (let account = account\<lparr>ID := ID existingAccount\<rparr>
                 in case ReadPrivateKey l e (uuid_String (ID account)) w1 of
                      ((privateKey, Some err), w2) \<Rightarrow> (Inl (Err err), w2)
                    | ((privateKey, None), w2) \<Rightarrow>
                        (let account = account\<lparr>PrivateKey := privateKey\<rparr>
                         in case rsa_assert privateKey of
                              None \<Rightarrow> (Inl (Panic ''interface conversion''), w2)
                            | Some k \<Rightarrow>
                                (let account = account\<lparr>LetsEncryptUser :=
                                       Some \<lparr>le_Email = Email account, Registration = None,
                                             Key = Some k\<rparr>\<rparr>
                                 in case CreateClient e account w2 of
                                      (Inl err, w3) \<Rightarrow> (Inl (Err err), w3)
                                    | (Inr client, w3) \<Rightarrow>
                                        (Inr (account\<lparr>Client := Some client\<rparr>), w3))))
              else
                (let newAccount = zero_account_Account\<lparr>Email := Email account\<rparr>
                 in case Create l e (models_Account.truncate newAccount) w1 of
                      ((newRow, Some err), w2) \<Rightarrow> (Inl (Err err), w2)
                    | ((newRow, None), w2) \<Rightarrow>
                        (let account = account\<lparr>ID := ID newRow\<rparr>
                         in case CreatePrivateKey l e account w2 of
                              ((account, Inl err), w3) \<Rightarrow> (Inl (Err err), w3)
                            | ((account, Inr privateKey), w3) \<Rightarrow>
                                (case rsa_assert (Some privateKey) of
                                   None \<Rightarrow> (Inl (Panic ''interface conversion''), w3)
                                 | Some k \<Rightarrow>
                                     (let account = account\<lparr>LetsEncryptUser :=
                                            Some \<lparr>le_Email = Email account, Registration = None,
                                                  Key = Some k\<rparr>\<rparr>
                                      in case CreateClient e account w3 of
                                           (Inl err, w4) \<Rightarrow> (Inl (Err err), w4)
                                         | (Inr client, w4) \<Rightarrow>
                                             (Inr (account\<lparr>Client := Some client\<rparr>), w4)))))))"

section \<open>Package certificate\<close>

type_synonym ChallengeType = string

definition ChallengeTypeHTTP :: ChallengeType where
  "ChallengeTypeHTTP = ''http''"

definition ChallengeTypeDNS :: ChallengeType where
  "ChallengeTypeDNS = ''dns''"

record CertificateConfig =
  ChallengeType :: ChallengeType
  DNSProvider :: string

record certificate_Certificate = models_Certificate +
  Account :: "account_Account option"
  Cert :: "certificate_Resource option"
  Config :: "CertificateConfig option"

definition nil_dereference :: fault where
  "nil_dereference = Panic ''invalid memory address or nil pointer dereference''"

text \<open>\<^verbatim>\<open>fmt.Errorf(prefix + "%w", err)\<close> around the error of a step, when there is one.\<close>

fun wrap :: "string \<Rightarrow> fault option \<Rightarrow> fault option" where
  "wrap p None = None"
| "wrap p (Some (Err err)) = Some (Err (fmt_Errorf_w p err))"
| "wrap p (Some (Panic m)) = Some (Panic m)"

definition setupHTTPChallenge ::
  "env \<Rightarrow> certificate_Certificate \<Rightarrow> world
     \<Rightarrow> (certificate_Certificate \<times> fault option) \<times> world" where
  "setupHTTPChallenge e c w =
     (case Account c of
        None \<Rightarrow> ((c, Some nil_dereference), w)
      | Some a \<Rightarrow>
          (case Client a of
             None \<Rightarrow> ((c, Some nil_dereference), w)
           | Some cl \<Rightarrow>
               (let w1 = emit ACME_SetHTTP01Provider w
                in case SetHTTP01Provider_error e of
                     Some err \<Rightarrow> ((c, Some (Err err)), w1)
                   | None \<Rightarrow>
                       ((c\<lparr>Account := Some (a\<lparr>Client :=
                              Some (cl\<lparr>HTTP01Provider := Some '':80''\<rparr>)\<rparr>)\<rparr>, None), w1))))"

definition setupDNSChallenge ::
  "env \<Rightarrow> certificate_Certificate \<Rightarrow> world
     \<Rightarrow> (certificate_Certificate \<times> fault option) \<times> world" where
  "setupDNSChallenge e c w =
     (case NewDNSProviderManual_error e of
        Some err \<Rightarrow>
          ((c, Some (Err (fmt_Errorf_w ''failed to create manual DNS provider: '' err))), w)
      | None \<Rightarrow>
          (case Account c of
             None \<Rightarrow> ((c, Some nil_dereference), w)
           | Some a \<Rightarrow>
               (case Client a of
                  None \<Rightarrow> ((c, Some nil_dereference), w)
                | Some cl \<Rightarrow>
                    (let w1 = emit ACME_SetDNS01Provider w
                     in case SetDNS01Provider_error e of
                          Some err \<Rightarrow> ((c, Some (Err err)), w1)
                        | None \<Rightarrow>
                            ((c\<lparr>Account := Some (a\<lparr>Client :=
                                   Some (cl\<lparr>DNS01Provider := Some ''manual''\<rparr>)\<rparr>)\<rparr>, None),
                             w1)))))"

text \<open>The \<^verbatim>\<open>switch\<close> of \<^verbatim>\<open>RequestNewCertificate\<close>: the challenge of the configured type.\<close>

definition setupChallenge ::
  "env \<Rightarrow> certificate_Certificate \<Rightarrow> world
     \<Rightarrow> (certificate_Certificate \<times> fault option) \<times> world" where
  "setupChallenge e c w =
     (case Config c of
        None \<Rightarrow> ((c, Some nil_dereference), w)
      | Some cfg \<Rightarrow>
          if ChallengeType cfg = ChallengeTypeHTTP then
            (case setupHTTPChallenge e c w of
               ((c1, r), w1) \<Rightarrow> ((c1, wrap ''failed to setup HTTP challenge: '' r), w1))
          else if ChallengeType cfg = ChallengeTypeDNS then
            (case setupDNSChallenge e c w of
               ((c1, r), w1) \<Rightarrow> ((c1, wrap ''failed to setup DNS challenge: '' r), w1))
          else
            ((c, Some (Err (errors_New (''unsupported challenge type: '' @ ChallengeType cfg)))),
             w))"

definition RequestNewCertificate ::
  "env \<Rightarrow> certificate_Certificate \<Rightarrow> world
     \<Rightarrow> (certificate_Certificate \<times> fault option) \<times> world" where
  "RequestNewCertificate e c w =
     (case setupChallenge e c w of
        ((c1, Some f), w1) \<Rightarrow> ((c1, Some f), w1)
      | ((c1, None), w1) \<Rightarrow>
          (case Account c1 of
             None \<Rightarrow> ((c1, Some nil_dereference), w1)
           | Some a \<Rightarrow>
               (case Client a of
                  None \<Rightarrow> ((c1, Some nil_dereference), w1)
                | Some cl \<Rightarrow>
                    (let w2 = emit (ACME_Obtain (Domains c1) True) w1
                     in case Obtain e (Domains c1) True of
                          Inl err \<Rightarrow> ((c1, Some (Err err)), w2)
                        | Inr certs \<Rightarrow> ((c1\<lparr>Cert := Some certs\<rparr>, None), w2)))))"

text \<open>\<^verbatim>\<open>Certificate.Save\<close>: the bundle under the certificate's own identifier.\<close>

definition Certificate_Save ::
  "env \<Rightarrow> certificate_Certificate \<Rightarrow> world \<Rightarrow> fault option \<times> world" where
  "Certificate_Save e c w =
     (case Cert c of
        None \<Rightarrow> (Some nil_dereference, w)
      | Some r \<Rightarrow>
          (case SaveCertificate e (uuid_String (cert_ID c)) r w of
             (Some err, w1) \<Rightarrow> (Some (Err err), w1)
           | (None, w1) \<Rightarrow> (None, w1)))"

definition NewCertificateWithConfig ::
  "env \<Rightarrow> string list \<Rightarrow> account_Account option \<Rightarrow> CertificateConfig option \<Rightarrow> world
     \<Rightarrow> (fault + certificate_Certificate) \<times> world" where
  "NewCertificateWithConfig e domains account config w =
     (case account of
        None \<Rightarrow> (Inl nil_dereference, w)
      | Some acc \<Rightarrow>
          (let cert = \<lparr>cert_ID = uuid_New e, AccountID = ID acc, Domains = domains,
                       cert_Account = zero_models_Account,
                       Account = account, Cert = None, Config = config\<rparr>
           in case RequestNewCertificate e cert w of
                ((cert1, Some f), w1) \<Rightarrow> (Inl f, w1)
              | ((cert1, None), w1) \<Rightarrow>
                  (case Certificate_Save e cert1 w1 of
                     (Some f, w2) \<Rightarrow> (Inl f, w2)
                   | (None, w2) \<Rightarrow> (Inr cert1, w2))))"

definition NewCertificate ::
  "env \<Rightarrow> string list \<Rightarrow> account_Account option \<Rightarrow> world
     \<Rightarrow> (fault + certificate_Certificate) \<times> world" where
  "NewCertificate e domains account w =
     NewCertificateWithConfig e domains account
       (Some \<lparr>ChallengeType = ChallengeTypeHTTP, DNSProvider = []\<rparr>) w"

definition GetSupportedChallengeTypes :: "string list" where
  "GetSupportedChallengeTypes = [''http'', ''dns'']"

definition apostrophe :: char where
  "apostrophe = CHR 0x27"

definition ValidateDNSProviderConfig :: "string \<Rightarrow> go_error option" where
  "ValidateDNSProviderConfig provider =
     (if provider = ''manual'' then None
      else Some (errors_New (''DNS provider '' @ [apostrophe] @ provider @ [apostrophe]
             @ '' not supported yet. Use '' @ [apostrophe] @ ''manual'' @ [apostrophe]
             @ '' for manual DNS record setup'')))"

section \<open>Example collaborators and runs\<close>

text \<open>
  Stand-ins for the libraries with the shape of the real ones, an environment in which
  every collaborator succeeds, and the runs evaluated further down.
\<close>

definition test_lib :: lib where
  "test_lib =
     \<lparr>IsEmail = (\<lambda>s. CHR ''@'' \<in> set s),
      MarshalPKCS8PrivateKey =
        (\<lambda>k. case k of rsa_PrivateKey m \<Rightarrow> Inr m
                      | other_PrivateKey m \<Rightarrow> Inl (errors_New ''x509: unknown key type'')),
      ParsePKCS8PrivateKey = (\<lambda>b. Inr (rsa_PrivateKey b)),
      pem_EncodeToMemory = (\<lambda>b. Type b @ '':'' @ Bytes b),
      pem_Decode = (\<lambda>d. if take 12 d = ''PRIVATE KEY:''
                          then Some \<lparr>Type = ''PRIVATE KEY'', Headers = [], Bytes = drop 12 d\<rparr>
                          else None)\<rparr>"

definition test_bundle :: certificate_Resource where
  "test_bundle =
     \<lparr>res_Domain = ''example.com'', CertURL = ''https://ca.test/cert/1'',
      Certificate = ''CHAIN'', IssuerCertificate = ''ISSUER''\<rparr>"

definition quiet_env :: env where
  "quiet_env =
     \<lparr>uuid_New = ''c0000000-0000-4000-8000-000000000001'',
      First_error = None, Create_error = None,
      gen_random_uuid = ''a0000000-0000-4000-8000-000000000001'',
      time_Now = 1, PutObject_error = None, GetObject_error = None,
      rsa_GenerateKey = Inr ''RSAKEY'', lego_NewClient_error = None,
      NewDNSProviderManual_error = None, SetHTTP01Provider_error = None,
      SetDNS01Provider_error = None,
      Obtain = (\<lambda>domains bundle. Inr test_bundle)\<rparr>"

definition empty_world :: world where
  "empty_world = \<lparr>accounts = [], objects = Map.empty, trace = []\<rparr>"

definition test_account :: account_Account where
  "test_account =
     \<lparr>ID = ''a0000000-0000-4000-8000-000000000009'', Email = ''ops@example.com'',
      CreatedAt = 0, UpdatedAt = 0, DeletedAt = None,
      PrivateKey = Some (rsa_PrivateKey ''RSAKEY''),
      LetsEncryptUser = Some \<lparr>le_Email = ''ops@example.com'', Registration = None,
                              Key = Some ''RSAKEY''\<rparr>,
      Client = Some \<lparr>User = None, HTTP01Provider = None, DNS01Provider = None\<rparr>\<rparr>"

definition example_domains :: "string list" where
  "example_domains = [''example.com'', ''*.example.com'']"

definition dns_config :: "string \<Rightarrow> CertificateConfig" where
  "dns_config p = \<lparr>ChallengeType = ChallengeTypeDNS, DNSProvider = p\<rparr>"

definition unexpected_EOF :: go_error where
  "unexpected_EOF = errors_New ''unexpected EOF''"

definition obtain_fails_env :: env where
  "obtain_fails_env = quiet_env\<lparr>Obtain := (\<lambda>domains bundle. Inl unexpected_EOF)\<rparr>"

definition save_fails_env :: env where
  "save_fails_env = quiet_env\<lparr>PutObject_error := Some unexpected_EOF\<rparr>"

definition dns_run :: "(fault + certificate_Certificate) \<times> world" where
  "dns_run = NewCertificateWithConfig quiet_env example_domains (Some test_account)
               (Some (dns_config ''manual'')) empty_world"

definition obtain_fail_run :: "(fault + certificate_Certificate) \<times> world" where
  "obtain_fail_run = NewCertificateWithConfig obtain_fails_env example_domains
               (Some test_account) (Some (dns_config ''manual'')) empty_world"

definition save_fail_run :: "(fault + certificate_Certificate) \<times> world" where
  "save_fail_run = NewCertificateWithConfig save_fails_env example_domains
               (Some test_account) (Some (dns_config ''manual'')) empty_world"

definition lookup_fails_env :: env where
  "lookup_fails_env = quiet_env\<lparr>First_error := Some (errors_New ''connection reset by peer'')\<rparr>"

definition account_world :: world where
  "account_world =
     \<lparr>accounts = [\<lparr>ID = ''a0000000-0000-4000-8000-000000000009'',
                    Email = ''ops@example.com'', CreatedAt = 1, UpdatedAt = 1,
                    DeletedAt = None\<rparr>],
      objects = [''a0000000-0000-4000-8000-000000000009'' \<mapsto> ''PRIVATE KEY:RSAKEY''],
      trace = []\<rparr>"

definition new_account_run :: "(fault + account_Account) \<times> world" where
  "new_account_run = NewAccount test_lib quiet_env ''new@example.com'' empty_world"

definition key_save_fail_run :: "(fault + account_Account) \<times> world" where
  "key_save_fail_run = NewAccount test_lib save_fails_env ''new@example.com'' empty_world"


definition existing_run :: "(fault + account_Account) \<times> world" where
  "existing_run = NewAccount test_lib quiet_env ''ops@example.com'' account_world"

definition duplicate_run :: "(fault + account_Account) \<times> world" where
  "duplicate_run = NewAccount test_lib lookup_fails_env ''ops@example.com'' account_world"

definition key_save :: "go_error option \<times> world" where
  "key_save = SavePrivateKey test_lib quiet_env ''a0000000-0000-4000-8000-000000000009''
                (rsa_PrivateKey ''RSAKEY'') empty_world"

definition route53_run :: "(fault + certificate_Certificate) \<times> world" where
  "route53_run = NewCertificateWithConfig quiet_env example_domains (Some test_account)
               (Some (dns_config ''route53'')) empty_world"

definition smtp_certificate :: certificate_Certificate where
  "smtp_certificate =
     \<lparr>cert_ID = ''c0000000-0000-4000-8000-000000000002'',
      AccountID = ''a0000000-0000-4000-8000-000000000009'',
      Domains = example_domains, cert_Account = zero_models_Account,
      Account = Some test_account, Cert = None,
      Config = Some \<lparr>ChallengeType = ''smtp'', DNSProvider = []\<rparr>\<rparr>"



section \<open>Issuing a certificate\<close>

subsection \<open>What each step does to the outside world\<close>

lemma emit_simps:
  "accounts (emit ev w) = accounts w"
  "objects (emit ev w) = objects w"
  "trace (emit ev w) = trace w @ [ev]"
  by (simp_all add: emit_def)

lemma setupHTTPChallenge_cases:
  assumes "setupHTTPChallenge e c w = ((c1, r), w1)"
  shows "accounts w1 = accounts w \<and> objects w1 = objects w
       \<and> Domains c1 = Domains c \<and> cert_ID c1 = cert_ID c \<and> Cert c1 = Cert c
       \<and> (trace w1 = trace w \<and> r = Some nil_dereference
          \<or> trace w1 = trace w @ [ACME_SetHTTP01Provider]
             \<and> r = map_option Err (SetHTTP01Provider_error e)
             \<and> (\<exists>a cl. Account c1 = Some a \<and> Client a = Some cl))"
  using assms
  by (auto simp: setupHTTPChallenge_def emit_simps Let_def split: option.splits)

lemma setupDNSChallenge_cases:
  assumes "setupDNSChallenge e c w = ((c1, r), w1)"
  shows "accounts w1 = accounts w \<and> objects w1 = objects w
       \<and> Domains c1 = Domains c \<and> cert_ID c1 = cert_ID c \<and> Cert c1 = Cert c
       \<and> (trace w1 = trace w \<and> r \<noteq> None
          \<or> trace w1 = trace w @ [ACME_SetDNS01Provider]
             \<and> r = map_option Err (SetDNS01Provider_error e)
             \<and> NewDNSProviderManual_error e = None
             \<and> (\<exists>a cl. Account c1 = Some a \<and> Client a = Some cl))"
  using assms
  by (auto simp: setupDNSChallenge_def emit_simps Let_def split: option.splits)

lemma wrap_None [simp]: "wrap p r = None \<longleftrightarrow> r = None"
  by (cases "(p, r)" rule: wrap.cases) auto

lemma setupChallenge_cases:
  assumes "setupChallenge e c w = ((c1, r), w1)"
  shows "accounts w1 = accounts w \<and> objects w1 = objects w
       \<and> Domains c1 = Domains c \<and> cert_ID c1 = cert_ID c \<and> Cert c1 = Cert c
       \<and> (trace w1 = trace w \<and> r \<noteq> None
          \<or> (trace w1 = trace w @ [ACME_SetHTTP01Provider]
               \<and> (r = None \<longleftrightarrow> SetHTTP01Provider_error e = None)
               \<and> map_option ChallengeType (Config c) = Some ChallengeTypeHTTP
             \<or> trace w1 = trace w @ [ACME_SetDNS01Provider]
               \<and> (r = None \<longleftrightarrow> SetDNS01Provider_error e = None)
               \<and> NewDNSProviderManual_error e = None
               \<and> map_option ChallengeType (Config c) = Some ChallengeTypeDNS)
            \<and> (\<exists>a cl. Account c1 = Some a \<and> Client a = Some cl))"
proof (cases "Config c")
  case None
  with assms show ?thesis by (auto simp: setupChallenge_def)
next
  case (Some cfg)
  show ?thesis
  proof (cases "ChallengeType cfg = ChallengeTypeHTTP")
    case True
    obtain c2 r2 w2 where h: "setupHTTPChallenge e c w = ((c2, r2), w2)"
      by (metis surj_pair)
    from assms Some True h have eq: "c1 = c2" "w1 = w2" "r = wrap ''failed to setup HTTP challenge: '' r2"
      by (auto simp: setupChallenge_def)
    from setupHTTPChallenge_cases[OF h] eq Some True show ?thesis
      by (auto simp: nil_dereference_def)
  next
    case False
    show ?thesis
    proof (cases "ChallengeType cfg = ChallengeTypeDNS")
      case True
      obtain c2 r2 w2 where h: "setupDNSChallenge e c w = ((c2, r2), w2)"
        by (metis surj_pair)
      from assms Some True False h have eq: "c1 = c2" "w1 = w2" "r = wrap ''failed to setup DNS challenge: '' r2"
        by (auto simp: setupChallenge_def)
      from setupDNSChallenge_cases[OF h] eq Some True show ?thesis
        by auto
    next
      case F2: False
      with assms Some False show ?thesis by (auto simp: setupChallenge_def)
    qed
  qed
qed


lemma RequestNewCertificate_cases:
  assumes "RequestNewCertificate e c w = ((c1, r), w1)"
  shows "accounts w1 = accounts w \<and> objects w1 = objects w
       \<and> Domains c1 = Domains c \<and> cert_ID c1 = cert_ID c
       \<and> (\<exists>evs. trace w1 = trace w @ evs
              \<and> set evs \<subseteq> {ACME_SetHTTP01Provider, ACME_SetDNS01Provider,
                            ACME_Obtain (Domains c) True})
       \<and> (r = None \<longrightarrow>
            (\<exists>cfg certs. Config c = Some cfg \<and> Cert c1 = Some certs
               \<and> (ChallengeType cfg = ChallengeTypeHTTP \<longrightarrow> SetHTTP01Provider_error e = None)
               \<and> (ChallengeType cfg = ChallengeTypeDNS \<longrightarrow>
                     NewDNSProviderManual_error e = None \<and> SetDNS01Provider_error e = None)
               \<and> Obtain e (Domains c) True = Inr certs
               \<and> (ChallengeType cfg = ChallengeTypeHTTP \<or> ChallengeType cfg = ChallengeTypeDNS)
               \<and> trace w1 = trace w @
                    [if ChallengeType cfg = ChallengeTypeHTTP then ACME_SetHTTP01Provider
                     else ACME_SetDNS01Provider,
                     ACME_Obtain (Domains c) True]))"
proof -
  obtain c2 r2 w2 where h: "setupChallenge e c w = ((c2, r2), w2)"
    by (metis surj_pair)
  note sc = setupChallenge_cases[OF h]
  show ?thesis
  proof (cases r2)
    case (Some f)
    with assms h have "c1 = c2" "w1 = w2" "r = Some f"
      by (auto simp: RequestNewCertificate_def)
    with sc Some show ?thesis by auto
  next
    case None
    with sc obtain a cl where acl: "Account c2 = Some a" "Client a = Some cl" by auto
    from assms h None acl have w1: "w1 = emit (ACME_Obtain (Domains c2) True) w2"
      and r: "r = (case Obtain e (Domains c2) True of Inl err \<Rightarrow> Some (Err err) | Inr certs \<Rightarrow> None)"
      and c1: "c1 = (case Obtain e (Domains c2) True of Inl err \<Rightarrow> c2 | Inr certs \<Rightarrow> c2\<lparr>Cert := Some certs\<rparr>)"
      by (auto simp: RequestNewCertificate_def Let_def split: sum.splits)
    from sc None w1 r c1 show ?thesis
      by (cases "Config c")
         (auto simp: emit_simps ChallengeTypeHTTP_def ChallengeTypeDNS_def split: sum.splits)
  qed
qed

lemma Certificate_Save_cases:
  assumes "Certificate_Save e c w = (r, w1)"
  shows "accounts w1 = accounts w
       \<and> (Cert c = None \<and> r = Some nil_dereference \<and> w1 = w
          \<or> (\<exists>certs. Cert c = Some certs
               \<and> trace w1 = trace w @ [S3_PutObject (uuid_String (cert_ID c)) (Certificate certs)]
               \<and> r = map_option Err (PutObject_error e)
               \<and> objects w1 = (if PutObject_error e = None
                               then (objects w)(uuid_String (cert_ID c) \<mapsto> Certificate certs)
                               else objects w)))"
  using assms
  by (auto simp: Certificate_Save_def SaveCertificate_def Save_def emit_simps Let_def emit_def
           split: option.splits prod.splits)

lemma acme_events_filters:
  assumes "set evs \<subseteq> {ACME_SetHTTP01Provider, ACME_SetDNS01Provider, ACME_Obtain d b}"
  shows "filter is_write evs = []" "filter is_DB evs = []" "filter is_PutObject evs = []"
  using assms by (auto simp: filter_empty_conv)

lemma RequestNewCertificate_no_panic:
  assumes "Account c = Some acc" "Client acc = Some cl" "Config c = Some cfg"
    and "RequestNewCertificate e c w = ((c1, Some f), w1)"
  shows "\<exists>err. f = Err err"
  using assms
  by (auto simp: RequestNewCertificate_def setupChallenge_def setupHTTPChallenge_def
        setupDNSChallenge_def Let_def split: option.splits if_splits sum.splits)

lemma RequestNewCertificate_ok:
  assumes "Account c = Some acc" "Client acc = Some cl" "Config c = Some cfg"
    and "(ChallengeType cfg = ChallengeTypeHTTP \<and> SetHTTP01Provider_error e = None)
       \<or> (ChallengeType cfg = ChallengeTypeDNS
            \<and> NewDNSProviderManual_error e = None \<and> SetDNS01Provider_error e = None)"
  shows "\<exists>c1 w1. RequestNewCertificate e c w =
            ((c1, case Obtain e (Domains c) True of Inl err \<Rightarrow> Some (Err err) | Inr certs \<Rightarrow> None), w1)
          \<and> cert_ID c1 = cert_ID c
          \<and> Cert c1 = (case Obtain e (Domains c) True of Inl err \<Rightarrow> Cert c | Inr certs \<Rightarrow> Some certs)
          \<and> accounts w1 = accounts w \<and> objects w1 = objects w
          \<and> trace w1 = trace w @
                    [if ChallengeType cfg = ChallengeTypeHTTP then ACME_SetHTTP01Provider
                     else ACME_SetDNS01Provider,
                     ACME_Obtain (Domains c) True]"
  using assms
  by (auto simp: RequestNewCertificate_def setupChallenge_def setupHTTPChallenge_def
        setupDNSChallenge_def Let_def emit_def ChallengeTypeHTTP_def ChallengeTypeDNS_def
        split: sum.splits)

lemmas run_defs =
  NewCertificateWithConfig_def RequestNewCertificate_def setupChallenge_def
  setupHTTPChallenge_def setupDNSChallenge_def Certificate_Save_def SaveCertificate_def
  Save_def emit_def quiet_env_def empty_world_def test_account_def example_domains_def
  dns_config_def ChallengeTypeDNS_def ChallengeTypeHTTP_def uuid_String_def test_bundle_def
  zero_models_Account_def Let_def nil_dereference_def unexpected_EOF_def

lemma dns_run_ok: "dns_run = (Inr (projr (fst dns_run)), snd dns_run)"
  by (simp add: dns_run_def run_defs)

subsection \<open>Successful issuance\<close>

text \<open>
  C1. When \<^verbatim>\<open>NewCertificateWithConfig\<close> returns a certificate, its \<^verbatim>\<open>Domains\<close> are the
  input list in the input order, the bundle obtained from the CA is stored in the bucket
  under the certificate's own identifier, and the calls made are, in this order: set the
  challenge provider of the configured type, obtain, put the object.
\<close>

theorem NewCertificateWithConfig_success:
  assumes "NewCertificateWithConfig e domains account config w = (Inr cert, w')"
  shows "Domains cert = domains
       \<and> (\<exists>cfg certs. config = Some cfg \<and> Cert cert = Some certs
            \<and> objects w' (uuid_String (cert_ID cert)) = Some (Certificate certs)
            \<and> trace w' = trace w @
                [if ChallengeType cfg = ChallengeTypeHTTP then ACME_SetHTTP01Provider
                 else ACME_SetDNS01Provider,
                 ACME_Obtain domains True,
                 S3_PutObject (uuid_String (cert_ID cert)) (Certificate certs)])"
proof -
  from assms obtain acc where acc: "account = Some acc"
    by (cases account) (auto simp: NewCertificateWithConfig_def)
  define c0 where "c0 = \<lparr>cert_ID = uuid_New e, AccountID = ID acc, Domains = domains,
                       cert_Account = zero_models_Account,
                       Account = account, Cert = None, Config = config\<rparr>"
  obtain c1 r w1 where h: "RequestNewCertificate e c0 w = ((c1, r), w1)"
    by (metis surj_pair)
  obtain r2 w2 where s: "Certificate_Save e c1 w1 = (r2, w2)"
    by (metis surj_pair)
  from assms acc h s have r: "r = None" and r2: "r2 = None" and eq: "cert = c1" "w' = w2"
    by (auto simp: NewCertificateWithConfig_def c0_def Let_def split: option.splits)
  from RequestNewCertificate_cases[OF h] r Certificate_Save_cases[OF s] r2 eq
  show ?thesis
    by (auto simp: c0_def nil_dereference_def split: if_splits)
qed

theorem NewCertificateWithConfig_success_witness:
  "Domains (projr (fst dns_run)) = [''example.com'', ''*.example.com'']
   \<and> objects (snd dns_run) ''c0000000-0000-4000-8000-000000000001'' = Some ''CHAIN''
   \<and> trace (snd dns_run) =
       [ACME_SetDNS01Provider, ACME_Obtain [''example.com'', ''*.example.com''] True,
        S3_PutObject ''c0000000-0000-4000-8000-000000000001'' ''CHAIN'']"
proof -
  have id: "cert_ID (projr (fst dns_run)) = ''c0000000-0000-4000-8000-000000000001''"
    and cfg: "dns_config ''manual'' = \<lparr>ChallengeType = ''dns'', DNSProvider = ''manual''\<rparr>"
    and crt: "Cert (projr (fst dns_run)) = Some test_bundle"
    by (simp_all add: dns_run_def run_defs)
  from NewCertificateWithConfig_success [OF dns_run_ok [unfolded dns_run_def], folded dns_run_def] id cfg crt
  show ?thesis
    by (simp add: example_domains_def uuid_String_def empty_world_def test_bundle_def
          ChallengeTypeHTTP_def)
qed

subsection \<open>Failure before the obtain call returns\<close>

text \<open>
  C2. For a resolved account (one with a client) and a configuration, whenever the
  challenge setup fails (provider rejected, manual DNS provider not built, challenge type
  unknown) or the obtain call returns an error, \<^verbatim>\<open>NewCertificateWithConfig\<close> returns an
  error, the table of accounts and the bucket are unchanged, and no write call (INSERT or
  PutObject) has been made.
\<close>

theorem NewCertificateWithConfig_failure_no_writes:
  assumes "account = Some acc" "Client acc = Some cl" "config = Some cfg"
    and fail: "(ChallengeType cfg = ChallengeTypeHTTP \<and> SetHTTP01Provider_error e \<noteq> None)
       \<or> (ChallengeType cfg = ChallengeTypeDNS
            \<and> (NewDNSProviderManual_error e \<noteq> None \<or> SetDNS01Provider_error e \<noteq> None))
       \<or> (ChallengeType cfg \<noteq> ChallengeTypeHTTP \<and> ChallengeType cfg \<noteq> ChallengeTypeDNS)
       \<or> isl (Obtain e domains True)"
  shows "(\<exists>err. fst (NewCertificateWithConfig e domains account config w) = Inl (Err err))
       \<and> accounts (snd (NewCertificateWithConfig e domains account config w)) = accounts w
       \<and> objects (snd (NewCertificateWithConfig e domains account config w)) = objects w
       \<and> (\<exists>evs. trace (snd (NewCertificateWithConfig e domains account config w)) = trace w @ evs
              \<and> filter is_write evs = [])"
proof -
  define c0 where "c0 = \<lparr>cert_ID = uuid_New e, AccountID = ID acc, Domains = domains,
                       cert_Account = zero_models_Account,
                       Account = account, Cert = None, Config = config\<rparr>"
  obtain c1 r w1 where h: "RequestNewCertificate e c0 w = ((c1, r), w1)"
    by (metis surj_pair)
  note rc = RequestNewCertificate_cases[OF h]
  have "r \<noteq> None"
  proof
    assume "r = None"
    with rc assms(3) fail show False
      by (auto simp: c0_def)
  qed
  then obtain f where f: "r = Some f" by auto
  from RequestNewCertificate_no_panic[of c0 acc cl cfg e w c1 f w1] assms h f
  obtain err where err: "f = Err err" by (auto simp: c0_def)
  from assms(1) h f err
  have res: "NewCertificateWithConfig e domains account config w = (Inl (Err err), w1)"
    by (simp add: NewCertificateWithConfig_def c0_def)
  from rc obtain evs where "trace w1 = trace w @ evs"
    "set evs \<subseteq> {ACME_SetHTTP01Provider, ACME_SetDNS01Provider, ACME_Obtain (Domains c0) True}"
    by auto
  with rc res acme_events_filters(1) show ?thesis by auto
qed

theorem NewCertificateWithConfig_failure_no_writes_witness:
  "isl (Obtain obtain_fails_env example_domains True)
   \<and> fst obtain_fail_run = Inl (Err unexpected_EOF)
   \<and> accounts (snd obtain_fail_run) = [] \<and> objects (snd obtain_fail_run) = Map.empty
   \<and> (\<exists>evs. trace (snd obtain_fail_run) = [] @ evs \<and> filter is_write evs = [])"
proof -
  have h1: "Client test_account
              = Some \<lparr>User = None, HTTP01Provider = None, DNS01Provider = None\<rparr>"
    by (simp add: test_account_def)
  have h2: "isl (Obtain obtain_fails_env example_domains True)"
    by (simp add: obtain_fails_env_def)
  have h3: "(ChallengeType (dns_config ''manual'') = ChallengeTypeHTTP
               \<and> SetHTTP01Provider_error obtain_fails_env \<noteq> None)
       \<or> (ChallengeType (dns_config ''manual'') = ChallengeTypeDNS
            \<and> (NewDNSProviderManual_error obtain_fails_env \<noteq> None
                 \<or> SetDNS01Provider_error obtain_fails_env \<noteq> None))
       \<or> (ChallengeType (dns_config ''manual'') \<noteq> ChallengeTypeHTTP
            \<and> ChallengeType (dns_config ''manual'') \<noteq> ChallengeTypeDNS)
       \<or> isl (Obtain obtain_fails_env example_domains True)"
    using h2 by simp
  have v: "fst obtain_fail_run = Inl (Err unexpected_EOF)"
    by (simp add: obtain_fail_run_def obtain_fails_env_def run_defs)
  from NewCertificateWithConfig_failure_no_writes [OF refl h1 refl h3, of empty_world] h2 v
  show ?thesis
    by (simp add: obtain_fail_run_def empty_world_def)
qed

subsection \<open>Failure of the save after a successful obtain\<close>

text \<open>
  The error of a failed save and the error of a failed obtain reach the caller as the
  collaborator produced them: the same error value from the store and from the CA gives
  the same result of \<^verbatim>\<open>NewCertificateWithConfig\<close>, although in the first run the CA has
  issued the certificate and in the second it has not.
\<close>

theorem save_failure_same_result_as_obtain_failure:
  "Obtain save_fails_env example_domains True = Inr test_bundle
   \<and> PutObject_error save_fails_env = Some unexpected_EOF
   \<and> Obtain obtain_fails_env example_domains True = Inl unexpected_EOF
   \<and> fst save_fail_run = fst obtain_fail_run"
  by (simp add: save_fail_run_def obtain_fail_run_def save_fails_env_def obtain_fails_env_def
        run_defs)

text \<open>
  C3 (amended). For a resolved account and a configuration whose challenge setup
  succeeds: when the obtain call succeeds and the save of the bundle fails,
  \<^verbatim>\<open>NewCertificateWithConfig\<close> returns no certificate and exactly the error of the store,
  neither wrapped nor put in a category; the bucket is unchanged and the calls made are
  set-provider, obtain, put. When the obtain call fails it returns exactly the error of the
  ACME client.
\<close>

theorem NewCertificateWithConfig_returns_collaborator_error:
  assumes "account = Some acc" "Client acc = Some cl" "config = Some cfg"
    and setup_ok: "(ChallengeType cfg = ChallengeTypeHTTP \<and> SetHTTP01Provider_error e = None)
       \<or> (ChallengeType cfg = ChallengeTypeDNS
            \<and> NewDNSProviderManual_error e = None \<and> SetDNS01Provider_error e = None)"
  shows "(\<forall>certs err. Obtain e domains True = Inr certs \<and> PutObject_error e = Some err \<longrightarrow>
            fst (NewCertificateWithConfig e domains account config w) = Inl (Err err)
          \<and> objects (snd (NewCertificateWithConfig e domains account config w)) = objects w
          \<and> trace (snd (NewCertificateWithConfig e domains account config w)) = trace w @
               [if ChallengeType cfg = ChallengeTypeHTTP then ACME_SetHTTP01Provider
                else ACME_SetDNS01Provider,
                ACME_Obtain domains True,
                S3_PutObject (uuid_String (uuid_New e)) (Certificate certs)])
       \<and> (\<forall>err. Obtain e domains True = Inl err \<longrightarrow>
            fst (NewCertificateWithConfig e domains account config w) = Inl (Err err))"
proof -
  define c0 where "c0 = \<lparr>cert_ID = uuid_New e, AccountID = ID acc, Domains = domains,
                       cert_Account = zero_models_Account,
                       Account = account, Cert = None, Config = config\<rparr>"
  have A: "Account c0 = Some acc" and C: "Config c0 = Some cfg"
    using assms by (simp_all add: c0_def)
  have D: "Domains c0 = domains" "cert_ID c0 = uuid_New e" "Cert c0 = None"
    by (simp_all add: c0_def)
  from RequestNewCertificate_ok[OF A assms(2) C setup_ok, of w]
  obtain c1 w1 where h0: "RequestNewCertificate e c0 w =
        ((c1, case Obtain e (Domains c0) True of Inl err \<Rightarrow> Some (Err err) | Inr certs \<Rightarrow> None), w1)"
    and c10: "cert_ID c1 = cert_ID c0"
       "Cert c1 = (case Obtain e (Domains c0) True of Inl err \<Rightarrow> Cert c0 | Inr certs \<Rightarrow> Some certs)"
    and w10: "accounts w1 = accounts w" "objects w1 = objects w"
       "trace w1 = trace w @
                    [if ChallengeType cfg = ChallengeTypeHTTP then ACME_SetHTTP01Provider
                     else ACME_SetDNS01Provider, ACME_Obtain (Domains c0) True]"
    by blast
  note h = h0[unfolded D] and c1 = c10[unfolded D] and w1 = w10[unfolded D]
  show ?thesis
  proof (cases "Obtain e domains True")
    case (Inl err)
    with h assms(1) show ?thesis
      by (simp add: NewCertificateWithConfig_def c0_def)
  next
    case (Inr certs)
    with h assms(1) c1 w1 show ?thesis
      by (auto simp: NewCertificateWithConfig_def c0_def Certificate_Save_def
            SaveCertificate_def Save_def emit_def Let_def)
  qed
qed

theorem NewCertificateWithConfig_returns_collaborator_error_witness:
  "fst save_fail_run = Inl (Err unexpected_EOF)
   \<and> objects (snd save_fail_run) = Map.empty
   \<and> trace (snd save_fail_run) =
       [ACME_SetDNS01Provider, ACME_Obtain [''example.com'', ''*.example.com''] True,
        S3_PutObject ''c0000000-0000-4000-8000-000000000001'' ''CHAIN'']"
proof -
  have h1: "Client test_account
              = Some \<lparr>User = None, HTTP01Provider = None, DNS01Provider = None\<rparr>"
    by (simp add: test_account_def)
  have h2: "(ChallengeType (dns_config ''manual'') = ChallengeTypeHTTP
               \<and> SetHTTP01Provider_error save_fails_env = None)
       \<or> (ChallengeType (dns_config ''manual'') = ChallengeTypeDNS
            \<and> NewDNSProviderManual_error save_fails_env = None
            \<and> SetDNS01Provider_error save_fails_env = None)"
    by (simp add: dns_config_def save_fails_env_def quiet_env_def)
  have h3: "Obtain save_fails_env example_domains True = Inr test_bundle
            \<and> PutObject_error save_fails_env = Some unexpected_EOF"
    by (simp add: save_fails_env_def quiet_env_def)
  from NewCertificateWithConfig_returns_collaborator_error
         [OF refl h1 refl h2, of example_domains empty_world] h3
  show ?thesis
    by (simp add: save_fail_run_def save_fails_env_def run_defs)
qed

subsection \<open>The relational store during issuance\<close>

text \<open>
  C10. Whatever its arguments and whether it succeeds or fails,
  \<^verbatim>\<open>NewCertificateWithConfig\<close> leaves the relational store as it was and makes no call to
  it; it makes at most one PutObject call; on success the bucket differs from before only
  by the bundle stored under the certificate's identifier, on failure the bucket is
  unchanged. \<^verbatim>\<open>NewCertificate\<close> is the same function with the HTTP challenge. The only
  table migrated by \<^verbatim>\<open>NewConnection\<close> is \<^verbatim>\<open>accounts\<close>.
\<close>

theorem NewCertificate_writes_no_metadata:
  "accounts (snd (NewCertificateWithConfig e domains account config w)) = accounts w
   \<and> (\<exists>evs. trace (snd (NewCertificateWithConfig e domains account config w)) = trace w @ evs
          \<and> filter is_DB evs = [] \<and> length (filter is_PutObject evs) \<le> 1)
   \<and> (case fst (NewCertificateWithConfig e domains account config w) of
        Inl f \<Rightarrow> objects (snd (NewCertificateWithConfig e domains account config w)) = objects w
      | Inr cert \<Rightarrow>
          (\<exists>certs. Cert cert = Some certs
             \<and> objects (snd (NewCertificateWithConfig e domains account config w)) =
                 (objects w)(uuid_String (cert_ID cert) \<mapsto> Certificate certs)))
   \<and> NewCertificate e domains account w =
       NewCertificateWithConfig e domains account
         (Some \<lparr>ChallengeType = ChallengeTypeHTTP, DNSProvider = []\<rparr>) w
   \<and> (case NewConnection open_error host port user password database of
        None \<Rightarrow> open_error \<noteq> None
      | Some d \<Rightarrow> map TableName (migrated d) = [''accounts''])"
proof (cases account)
  case None
  then show ?thesis
    by (auto simp: NewCertificateWithConfig_def NewCertificate_def NewConnection_def
          split: option.splits)
next
  case (Some acc)
  define c0 where "c0 = \<lparr>cert_ID = uuid_New e, AccountID = ID acc, Domains = domains,
                       cert_Account = zero_models_Account,
                       Account = account, Cert = None, Config = config\<rparr>"
  obtain c1 r w1 where h: "RequestNewCertificate e c0 w = ((c1, r), w1)"
    by (metis surj_pair)
  obtain r2 w2 where s: "Certificate_Save e c1 w1 = (r2, w2)"
    by (metis surj_pair)
  note rc = RequestNewCertificate_cases[OF h]
  note sc = Certificate_Save_cases[OF s]
  from rc obtain evs where evs: "trace w1 = trace w @ evs"
    "set evs \<subseteq> {ACME_SetHTTP01Provider, ACME_SetDNS01Provider, ACME_Obtain (Domains c0) True}"
    by auto
  note fl = acme_events_filters[OF evs(2)]
  have conn: "(case NewConnection open_error host port user password database of
        None \<Rightarrow> open_error \<noteq> None
      | Some d \<Rightarrow> map TableName (migrated d) = [''accounts''])"
    by (simp add: NewConnection_def split: option.splits)
  have nc: "NewCertificate e domains account w =
       NewCertificateWithConfig e domains account
         (Some \<lparr>ChallengeType = ChallengeTypeHTTP, DNSProvider = []\<rparr>) w"
    by (simp add: NewCertificate_def)
  show ?thesis
  proof (cases r)
    case (Some f)
    with h Some \<open>account = Some acc\<close>
    have "NewCertificateWithConfig e domains account config w = (Inl f, w1)"
      by (simp add: NewCertificateWithConfig_def c0_def)
    with rc evs fl conn nc show ?thesis by auto
  next
    case None
    with h s \<open>account = Some acc\<close>
    have res: "NewCertificateWithConfig e domains account config w =
          (case r2 of Some f \<Rightarrow> (Inl f, w2) | None \<Rightarrow> (Inr c1, w2))"
      by (simp add: NewCertificateWithConfig_def c0_def split: option.splits)
    from rc None obtain certs where certs: "Cert c1 = Some certs" by auto
    with sc have tr2: "trace w2 = trace w1 @ [S3_PutObject (uuid_String (cert_ID c1)) (Certificate certs)]"
      and r2: "r2 = map_option Err (PutObject_error e)"
      and ob: "objects w2 = (if PutObject_error e = None
                               then (objects w1)(uuid_String (cert_ID c1) \<mapsto> Certificate certs)
                               else objects w1)"
      and ac: "accounts w2 = accounts w1"
      by auto
    have tr: "trace w2 = trace w @ (evs @ [S3_PutObject (uuid_String (cert_ID c1)) (Certificate certs)])"
      using tr2 evs by simp
    have f1: "filter is_DB (evs @ [S3_PutObject (uuid_String (cert_ID c1)) (Certificate certs)]) = []"
      and f2: "length (filter is_PutObject (evs @ [S3_PutObject (uuid_String (cert_ID c1)) (Certificate certs)])) \<le> 1"
      using fl by simp_all
    have tre: "\<exists>evs. trace w2 = trace w @ evs
          \<and> filter is_DB evs = [] \<and> length (filter is_PutObject evs) \<le> 1"
      using tr f1 f2 by blast
    show ?thesis
    proof (cases "PutObject_error e")
      case None
      with res r2 rc ac ob certs tre conn nc show ?thesis by simp
    next
      case (Some err)
      with res r2 rc ac ob certs tre conn nc show ?thesis by simp
    qed
  qed
qed

theorem NewCertificate_writes_no_metadata_witness:
  "accounts (snd dns_run) = []
   \<and> objects (snd dns_run) = [''c0000000-0000-4000-8000-000000000001'' \<mapsto> ''CHAIN'']
   \<and> NewConnection None ''localhost'' 5432 ''postgres'' ''postgres'' ''cert'' \<noteq> None
   \<and> map TableName
        (migrated (the (NewConnection None ''localhost'' 5432 ''postgres'' ''postgres'' ''cert'')))
       = [''accounts'']"
proof -
  have v: "fst dns_run = Inr (projr (fst dns_run))"
    and id: "cert_ID (projr (fst dns_run)) = ''c0000000-0000-4000-8000-000000000001''"
    and crt: "Cert (projr (fst dns_run)) = Some test_bundle"
    by (simp_all add: dns_run_def run_defs)
  have n: "NewConnection None ''localhost'' 5432 ''postgres'' ''postgres'' ''cert'' \<noteq> None"
    by (simp add: NewConnection_def)
  note T = NewCertificate_writes_no_metadata
         [of quiet_env example_domains "Some test_account" "Some (dns_config ''manual'')"
             empty_world None "''localhost''" 5432 "''postgres''" "''postgres''" "''cert''",
          folded dns_run_def]
  from T have a: "accounts (snd dns_run) = accounts empty_world"
    by blast
  from T have "case fst dns_run of
        Inl f \<Rightarrow> objects (snd dns_run) = objects empty_world
      | Inr cert \<Rightarrow>
          (\<exists>certs. Cert cert = Some certs
             \<and> objects (snd dns_run) =
                 (objects empty_world)(uuid_String (cert_ID cert) \<mapsto> Certificate certs))"
    by blast
  with v have "\<exists>certs. Cert (projr (fst dns_run)) = Some certs
             \<and> objects (snd dns_run) =
                 (objects empty_world)(uuid_String (cert_ID (projr (fst dns_run)))
                    \<mapsto> Certificate certs)"
    by (cases "fst dns_run") auto
  with id crt have o: "objects (snd dns_run)
      = [''c0000000-0000-4000-8000-000000000001'' \<mapsto> ''CHAIN'']"
    by (simp add: empty_world_def uuid_String_def test_bundle_def)
  from T have "case NewConnection None ''localhost'' 5432 ''postgres'' ''postgres'' ''cert'' of
        None \<Rightarrow> (None :: go_error option) \<noteq> None
      | Some d \<Rightarrow> map TableName (migrated d) = [''accounts'']"
    by blast
  with n have m: "map TableName
        (migrated (the (NewConnection None ''localhost'' 5432 ''postgres'' ''postgres'' ''cert'')))
       = [''accounts'']"
    by (cases "NewConnection None ''localhost'' 5432 ''postgres'' ''postgres'' ''cert''") auto
  from a o n m show ?thesis
    by (simp add: empty_world_def)
qed

section \<open>Resolving an account\<close>

subsection \<open>Lookup, create and key storage\<close>

lemmas account_defs =
  NewAccount_def First_def Create_def BeforeCreate_def CreatePrivateKey_def
  GeneratePrivateKey_RSA2048_def SavePrivateKey_def Save_def ReadPrivateKey_def Read_def
  CreateClient_def emit_def Let_def quiet_env_def save_fails_env_def lookup_fails_env_def
  test_lib_def empty_world_def account_world_def uuid_String_def uuid_Nil_def
  zero_models_Account_def zero_account_Account_def models_Account.truncate_def
  duplicate_key_def unexpected_EOF_def

lemma First_world: "snd (First e email w) = emit (DB_First email) w"
  by (simp add: First_def Let_def split: option.splits)

lemma First_absent:
  assumes "email \<notin> set (map Email (accounts w))"
  shows "fst (fst (First e email w)) = zero_models_Account"
proof -
  have "find (\<lambda>r. Email r = email \<and> DeletedAt r = None) (accounts w) = None"
    using assms by (auto simp: find_None_iff)
  then show ?thesis
    by (simp add: First_def Let_def split: option.splits)
qed


lemma Create_cases:
  assumes "Create l e a w = ((a1, r), w1)"
  shows "trace w1 = trace w @ [DB_Create (Email a)] \<and> objects w1 = objects w
       \<and> (r \<noteq> None \<and> accounts w1 = accounts w \<and> a1 = a
          \<or> r = None \<and> Create_error e = None \<and> IsEmail l (Email a)
             \<and> Email a \<notin> set (map Email (accounts w))
             \<and> ID a1 \<notin> set (map ID (accounts w))
             \<and> a1 = a\<lparr>ID := (if ID a = uuid_Nil then gen_random_uuid e else ID a),
                       CreatedAt := time_Now e, UpdatedAt := time_Now e\<rparr>
             \<and> accounts w1 = accounts w @ [a1])"
  using assms
  by (auto simp: Create_def BeforeCreate_def emit_def Let_def split: option.splits if_splits)

lemma Create_duplicate:
  assumes "Email a \<in> set (map Email (accounts w))"
  shows "\<exists>err. Create l e a w = ((a, Some err), emit (DB_Create (Email a)) w)
        \<and> (Create_error e = None \<and> IsEmail l (Email a)
             \<and> (if ID a = uuid_Nil then gen_random_uuid e else ID a) \<notin> set (map ID (accounts w))
            \<longrightarrow> err = duplicate_key ''accounts_email_key'')"
  using assms
  by (auto simp: Create_def BeforeCreate_def Let_def split: option.splits)


lemma truncate_zero:
  "models_Account.truncate (zero_account_Account\<lparr>Email := email\<rparr>)
     = zero_models_Account\<lparr>Email := email\<rparr>"
  by (simp add: models_Account.truncate_def zero_account_Account_def zero_models_Account_def)

lemma NewAccount_create_path:
  assumes "ID (fst (fst (First e email w))) = uuid_Nil"
  shows "NewAccount l e email w =
     (case Create l e (zero_models_Account\<lparr>Email := email\<rparr>) (emit (DB_First email) w) of
        ((newRow, Some err), w2) \<Rightarrow> (Inl (Err err), w2)
      | ((newRow, None), w2) \<Rightarrow>
          (case CreatePrivateKey l e (zero_account_Account\<lparr>Email := email, ID := ID newRow\<rparr>) w2 of
             ((account, Inl err), w3) \<Rightarrow> (Inl (Err err), w3)
           | ((account, Inr privateKey), w3) \<Rightarrow>
               (case rsa_assert (Some privateKey) of
                  None \<Rightarrow> (Inl (Panic ''interface conversion''), w3)
                | Some k \<Rightarrow>
                   (case CreateClient e (account\<lparr>LetsEncryptUser :=
                            Some \<lparr>le_Email = Email account, Registration = None,
                                  Key = Some k\<rparr>\<rparr>) w3 of
                      (Inl err, w4) \<Rightarrow> (Inl (Err err), w4)
                    | (Inr client, w4) \<Rightarrow>
                        (Inr (account\<lparr>LetsEncryptUser :=
                            Some \<lparr>le_Email = Email account, Registration = None,
                                  Key = Some k\<rparr>, Client := Some client\<rparr>), w4)))))"
proof -
  obtain ex err w1 where f: "First e email w = ((ex, err), w1)"
    by (metis surj_pair)
  with First_world[of e email w] have w1: "w1 = emit (DB_First email) w" by simp
  from f assms have "ID ex = uuid_Nil" by simp
  with f w1 show ?thesis
    unfolding NewAccount_def Let_def
    by (simp add: truncate_zero)
qed

lemma CreatePrivateKey_cases:
  assumes "CreatePrivateKey l e a w = ((a1, r), w1)"
  shows "accounts w1 = accounts w \<and> ID a1 = ID a \<and> Email a1 = Email a
    \<and> (case rsa_GenerateKey e of
          Inl err \<Rightarrow> r = Inl err \<and> w1 = w
        | Inr k \<Rightarrow>
           (case MarshalPKCS8PrivateKey l (rsa_PrivateKey k) of
              Inl err \<Rightarrow> r = Inl err \<and> w1 = w
            | Inr der \<Rightarrow>
                trace w1 = trace w @ [S3_PutObject (uuid_String (ID a))
                    (pem_EncodeToMemory l \<lparr>Type = ''PRIVATE KEY'', Headers = [], Bytes = der\<rparr>)]
                \<and> (case PutObject_error e of
                      Some err \<Rightarrow> r = Inl err \<and> objects w1 = objects w
                    | None \<Rightarrow> r = Inr (rsa_PrivateKey k)
                        \<and> objects w1 = (objects w)(uuid_String (ID a) \<mapsto>
                            pem_EncodeToMemory l
                              \<lparr>Type = ''PRIVATE KEY'', Headers = [], Bytes = der\<rparr>))))"
  using assms
  by (auto simp: CreatePrivateKey_def GeneratePrivateKey_RSA2048_def SavePrivateKey_def
        Save_def emit_def Let_def split: sum.splits option.splits prod.splits)

lemma CreateClient_cases:
  assumes "CreateClient e a w = (r, w1)"
  shows "w1 = emit ACME_NewClient w \<and> (isl r \<longleftrightarrow> lego_NewClient_error e \<noteq> None)"
  using assms by (auto simp: CreateClient_def Let_def split: option.splits)


lemma Create_ok:
  assumes "IsEmail l email" "Create_error e = None"
    "email \<notin> set (map Email (accounts w))" "gen_random_uuid e \<notin> set (map ID (accounts w))"
  shows "Create l e (zero_models_Account\<lparr>Email := email\<rparr>) w =
     ((\<lparr>ID = gen_random_uuid e, Email = email, CreatedAt = time_Now e,
        UpdatedAt = time_Now e, DeletedAt = None\<rparr>, None),
      (emit (DB_Create email) w)\<lparr>accounts := accounts w @
        [\<lparr>ID = gen_random_uuid e, Email = email, CreatedAt = time_Now e,
          UpdatedAt = time_Now e, DeletedAt = None\<rparr>]\<rparr>)"
  using assms
  by (simp add: Create_def BeforeCreate_def Let_def zero_models_Account_def emit_def)





subsection \<open>An email that fails validation\<close>



subsection \<open>A create refused by the unique constraint\<close>

text \<open>
  A lookup that fails in transit leaves the destination empty, \<^verbatim>\<open>NewAccount\<close> goes on to
  create, the unique constraint on email refuses the INSERT, and the caller receives that
  error, although the account and its key are there: the same call with a working lookup
  returns the account.
\<close>

theorem duplicate_create_error_is_propagated:
  "fst duplicate_run = Inl (Err (duplicate_key ''accounts_email_key''))
   \<and> trace (snd duplicate_run) = [DB_First ''ops@example.com'', DB_Create ''ops@example.com'']
   \<and> \<not> isl (fst existing_run)
   \<and> ID (projr (fst existing_run)) = ''a0000000-0000-4000-8000-000000000009''"
  by (simp add: duplicate_run_def existing_run_def account_defs)

text \<open>
  C7 (amended). When the lookup has produced no record (it failed, or found no row that
  is not soft-deleted) and a row with the email exists, the create step fails and
  \<^verbatim>\<open>NewAccount\<close> returns the error of the create, which is the duplicate-key error of the
  unique email constraint when the ORM reaches the INSERT; it makes no second lookup (the
  calls are one lookup and one create), generates and stores no key, and leaves both stores
  unchanged.
\<close>

theorem NewAccount_propagates_create_error:
  assumes "email \<in> set (map Email (accounts w))"
    and "ID (fst (fst (First e email w))) = uuid_Nil"
  shows "(\<exists>err. fst (NewAccount l e email w) = Inl (Err err)
            \<and> (Create_error e = None \<and> IsEmail l email
                 \<and> gen_random_uuid e \<notin> set (map ID (accounts w))
               \<longrightarrow> err = duplicate_key ''accounts_email_key''))
       \<and> accounts (snd (NewAccount l e email w)) = accounts w
       \<and> objects (snd (NewAccount l e email w)) = objects w
       \<and> trace (snd (NewAccount l e email w)) = trace w @ [DB_First email, DB_Create email]"
proof -
  note p = NewAccount_create_path[OF assms(2), of l]
  from Create_duplicate[of "zero_models_Account\<lparr>Email := email\<rparr>" "emit (DB_First email) w" l e]
    assms(1)
  obtain err where c: "Create l e (zero_models_Account\<lparr>Email := email\<rparr>) (emit (DB_First email) w)
        = ((zero_models_Account\<lparr>Email := email\<rparr>, Some err),
           emit (DB_Create email) (emit (DB_First email) w))"
    and m: "Create_error e = None \<and> IsEmail l email
              \<and> gen_random_uuid e \<notin> set (map ID (accounts w))
            \<longrightarrow> err = duplicate_key ''accounts_email_key''"
    by (auto simp: emit_simps zero_models_Account_def)
  from p c have "NewAccount l e email w
      = (Inl (Err err), emit (DB_Create email) (emit (DB_First email) w))"
    by simp
  with m show ?thesis by (simp add: emit_simps)
qed

theorem NewAccount_propagates_create_error_witness:
  "fst duplicate_run = Inl (Err (duplicate_key ''accounts_email_key''))
   \<and> accounts (snd duplicate_run) = accounts account_world
   \<and> objects (snd duplicate_run) = objects account_world
   \<and> trace (snd duplicate_run) = [DB_First ''ops@example.com'', DB_Create ''ops@example.com'']"
proof -
  have h1: "''ops@example.com'' \<in> set (map Email (accounts account_world))"
    by (simp add: account_world_def)
  have h2: "ID (fst (fst (First lookup_fails_env ''ops@example.com'' account_world))) = uuid_Nil"
    by (simp add: First_def lookup_fails_env_def quiet_env_def zero_models_Account_def Let_def)
  have h3: "Create_error lookup_fails_env = None \<and> IsEmail test_lib ''ops@example.com''
            \<and> gen_random_uuid lookup_fails_env \<notin> set (map ID (accounts account_world))"
    by (simp add: lookup_fails_env_def quiet_env_def test_lib_def account_world_def)
  from NewAccount_propagates_create_error [OF h1 h2, of test_lib, folded duplicate_run_def] h3
  show ?thesis
    by (auto simp: account_world_def)
qed

subsection \<open>Order of the two writes of a new account\<close>

text \<open>
  The row is inserted before the key is stored: in a run whose PutObject fails the table
  has the new row and the bucket has no object under its identifier; in a run that
  succeeds the create call precedes the PutObject call.
\<close>

theorem account_row_without_key_blob:
  "fst key_save_fail_run = Inl (Err unexpected_EOF)
   \<and> map Email (accounts (snd key_save_fail_run)) = [''new@example.com'']
   \<and> map ID (accounts (snd key_save_fail_run)) = [''a0000000-0000-4000-8000-000000000001'']
   \<and> objects (snd key_save_fail_run) (uuid_String ''a0000000-0000-4000-8000-000000000001'') = None
   \<and> trace (snd new_account_run) =
       [DB_First ''new@example.com'', DB_Create ''new@example.com'',
        S3_PutObject ''a0000000-0000-4000-8000-000000000001'' ''PRIVATE KEY:RSAKEY'',
        ACME_NewClient]"
  by (simp add: key_save_fail_run_def new_account_run_def account_defs)

text \<open>
  C4 (amended). During creation of a new account (valid email carried by no row, ORM
  reaching the INSERT, fresh identifier), \<^verbatim>\<open>NewAccount\<close> first creates the account row, which
  gives the account its identifier, and only then generates the key and stores it under
  that identifier: the row is in the table in every outcome, every call after the create is
  a call to the bucket or the ACME library, and when key generation, marshalling or the
  PutObject fails the call returns that error with the row persisted and the bucket
  unchanged. When they succeed the bucket gains the PEM of the key under the identifier of
  the row.
\<close>

theorem NewAccount_row_before_key:
  assumes valid: "IsEmail l email" and db: "Create_error e = None"
    and fresh: "email \<notin> set (map Email (accounts w))"
               "gen_random_uuid e \<notin> set (map ID (accounts w))"
  shows "accounts (snd (NewAccount l e email w)) = accounts w @
           [\<lparr>ID = gen_random_uuid e, Email = email, CreatedAt = time_Now e,
             UpdatedAt = time_Now e, DeletedAt = None\<rparr>]
    \<and> (\<exists>evs. trace (snd (NewAccount l e email w))
                = trace w @ [DB_First email, DB_Create email] @ evs
             \<and> filter is_DB evs = [])
    \<and> (case rsa_GenerateKey e of
          Inl err \<Rightarrow> fst (NewAccount l e email w) = Inl (Err err)
                      \<and> objects (snd (NewAccount l e email w)) = objects w
        | Inr k \<Rightarrow>
           (case MarshalPKCS8PrivateKey l (rsa_PrivateKey k) of
              Inl err \<Rightarrow> fst (NewAccount l e email w) = Inl (Err err)
                          \<and> objects (snd (NewAccount l e email w)) = objects w
            | Inr der \<Rightarrow>
               (case PutObject_error e of
                  Some err \<Rightarrow> fst (NewAccount l e email w) = Inl (Err err)
                          \<and> objects (snd (NewAccount l e email w)) = objects w
                | None \<Rightarrow>
                    objects (snd (NewAccount l e email w))
                      = (objects w)(uuid_String (gen_random_uuid e) \<mapsto>
                          pem_EncodeToMemory l
                            \<lparr>Type = ''PRIVATE KEY'', Headers = [], Bytes = der\<rparr>)
                    \<and> trace (snd (NewAccount l e email w))
                      = trace w @ [DB_First email, DB_Create email,
                          S3_PutObject (uuid_String (gen_random_uuid e))
                            (pem_EncodeToMemory l
                               \<lparr>Type = ''PRIVATE KEY'', Headers = [], Bytes = der\<rparr>),
                          ACME_NewClient]
                    \<and> (lego_NewClient_error e = None \<longrightarrow>
                          (\<exists>a. fst (NewAccount l e email w) = Inr a
                              \<and> ID a = gen_random_uuid e \<and> Email a = email)))))"
proof -
  define row where "row = \<lparr>ID = gen_random_uuid e, Email = email, CreatedAt = time_Now e,
             UpdatedAt = time_Now e, DeletedAt = None\<rparr>"
  define w1 where "w1 = emit (DB_First email) w"
  define w2 where "w2 = (emit (DB_Create email) w1)\<lparr>accounts := accounts w1 @ [row]\<rparr>"
  define a0 where "a0 = zero_account_Account\<lparr>Email := email, ID := ID row\<rparr>"
  have "ID (fst (fst (First e email w))) = uuid_Nil"
    using First_absent[OF fresh(1)] by (simp add: zero_models_Account_def)
  note p = NewAccount_create_path[OF this, of l]
  have c: "Create l e (zero_models_Account\<lparr>Email := email\<rparr>) (emit (DB_First email) w)
            = ((row, None), w2)"
    using Create_ok[of l email e w1] valid db fresh
    by (simp add: w1_def w2_def row_def emit_simps)
  have w2: "accounts w2 = accounts w @ [row]" "objects w2 = objects w"
    "trace w2 = trace w @ [DB_First email, DB_Create email]"
    by (simp_all add: w2_def w1_def emit_def)
  have a0: "ID a0 = gen_random_uuid e" "Email a0 = email"
    by (simp_all add: a0_def row_def)
  obtain a1 r w3 where k: "CreatePrivateKey l e a0 w2 = ((a1, r), w3)"
    by (metis surj_pair)
  note kc = CreatePrivateKey_cases[OF k, unfolded a0 w2]
  show ?thesis
  proof (cases r)
    case (Inl err)
    with p c k have res: "NewAccount l e email w = (Inl (Err err), w3)"
      by (simp add: a0_def)
    from kc Inl have "\<exists>evs. trace w3 = trace w @ [DB_First email, DB_Create email] @ evs
             \<and> filter is_DB evs = []"
      by (auto simp: w2 split: sum.splits option.splits)
    with kc Inl res show ?thesis
      by (auto simp: row_def w2 split: sum.splits option.splits)
  next
    case (Inr pk)
    with kc obtain kk der where g: "rsa_GenerateKey e = Inr kk"
      "MarshalPKCS8PrivateKey l (rsa_PrivateKey kk) = Inr der" "PutObject_error e = None"
      "pk = rsa_PrivateKey kk"
      by (auto split: sum.splits option.splits)
    define a2 where "a2 = a1\<lparr>LetsEncryptUser :=
          Some \<lparr>le_Email = Email a1, Registration = None, Key = Some kk\<rparr>\<rparr>"
    obtain rc w4 where cc: "CreateClient e a2 w3 = (rc, w4)"
      by (metis surj_pair)
    note ccc = CreateClient_cases[OF cc]
    from p c k Inr g cc have res: "NewAccount l e email w =
        (case rc of Inl err \<Rightarrow> (Inl (Err err), w4)
                  | Inr client \<Rightarrow> (Inr (a2\<lparr>Client := Some client\<rparr>), w4))"
      by (simp add: a0_def a2_def split: sum.splits)
    have w4: "accounts w4 = accounts w @ [row]"
      "objects w4 = (objects w)(uuid_String (gen_random_uuid e) \<mapsto>
                          pem_EncodeToMemory l
                            \<lparr>Type = ''PRIVATE KEY'', Headers = [], Bytes = der\<rparr>)"
      "trace w4 = trace w @ [DB_First email, DB_Create email,
                          S3_PutObject (uuid_String (gen_random_uuid e))
                            (pem_EncodeToMemory l
                               \<lparr>Type = ''PRIVATE KEY'', Headers = [], Bytes = der\<rparr>),
                          ACME_NewClient]"
      using kc g ccc by (simp_all add: emit_simps)
    have ev: "\<exists>evs. trace w4 = trace w @ [DB_First email, DB_Create email] @ evs
             \<and> filter is_DB evs = []"
      using w4(3) by simp
    have ida: "ID a2 = gen_random_uuid e" "Email a2 = email"
      using kc by (simp_all add: a2_def)
    show ?thesis
    proof (cases rc)
      case (Inl err)
      with res w4 ev g ccc show ?thesis
        by (simp add: row_def)
    next
      case (Inr client)
      with res w4 ev g ccc ida show ?thesis
        by (simp add: row_def)
    qed
  qed
qed

theorem NewAccount_row_before_key_witness:
  "map Email (accounts (snd new_account_run)) = [''new@example.com'']
   \<and> objects (snd new_account_run) ''a0000000-0000-4000-8000-000000000001''
        = Some ''PRIVATE KEY:RSAKEY''
   \<and> trace (snd new_account_run) =
       [DB_First ''new@example.com'', DB_Create ''new@example.com'',
        S3_PutObject ''a0000000-0000-4000-8000-000000000001'' ''PRIVATE KEY:RSAKEY'',
        ACME_NewClient]
   \<and> (\<exists>a. fst new_account_run = Inr a \<and> ID a = ''a0000000-0000-4000-8000-000000000001'')"
proof -
  have h1: "IsEmail test_lib ''new@example.com''"
    by (simp add: test_lib_def)
  have h2: "Create_error quiet_env = None"
    by (simp add: quiet_env_def)
  have h3: "''new@example.com'' \<notin> set (map Email (accounts empty_world))"
    and h4: "gen_random_uuid quiet_env \<notin> set (map ID (accounts empty_world))"
    by (simp_all add: empty_world_def)
  have v: "rsa_GenerateKey quiet_env = Inr ''RSAKEY''"
    "MarshalPKCS8PrivateKey test_lib (rsa_PrivateKey ''RSAKEY'') = Inr ''RSAKEY''"
    "PutObject_error quiet_env = None" "lego_NewClient_error quiet_env = None"
    "gen_random_uuid quiet_env = ''a0000000-0000-4000-8000-000000000001''"
    "pem_EncodeToMemory test_lib \<lparr>Type = ''PRIVATE KEY'', Headers = [], Bytes = ''RSAKEY''\<rparr>
       = ''PRIVATE KEY:RSAKEY''"
    by (simp_all add: quiet_env_def test_lib_def)
  from NewAccount_row_before_key [OF h1 h2 h3 h4, folded new_account_run_def] v
  show ?thesis
    by (auto simp: empty_world_def uuid_String_def)
qed

subsection \<open>An email that already has an account\<close>




section \<open>Private keys in the bucket\<close>

text \<open>
  C9. Given the inverse laws of the encoding libraries (\<^verbatim>\<open>pem.Decode\<close> returns the block
  that \<^verbatim>\<open>pem.EncodeToMemory\<close> encoded, \<^verbatim>\<open>x509.ParsePKCS8PrivateKey\<close> returns the key that
  \<^verbatim>\<open>x509.MarshalPKCS8PrivateKey\<close> marshalled), for every key, identifier and state: after
  a \<^verbatim>\<open>SavePrivateKey\<close> that returned no error, \<^verbatim>\<open>ReadPrivateKey\<close> under the same identifier
  (with the store answering) returns that key with no error, and saving the key read back
  would put exactly the bytes that the first save stored.
\<close>

theorem SavePrivateKey_ReadPrivateKey_roundtrip:
  assumes pem_law: "\<forall>der. pem_Decode l (pem_EncodeToMemory l
                       \<lparr>Type = ''PRIVATE KEY'', Headers = [], Bytes = der\<rparr>)
                     = Some \<lparr>Type = ''PRIVATE KEY'', Headers = [], Bytes = der\<rparr>"
    and x509_law: "\<forall>k der. MarshalPKCS8PrivateKey l k = Inr der
                     \<longrightarrow> ParsePKCS8PrivateKey l der = Inr k"
    and saved: "SavePrivateKey l e1 i key w = (None, w1)"
    and answers: "GetObject_error e2 = None"
  shows "(\<exists>pemBytes. objects w1 i = Some pemBytes
            \<and> trace w1 = trace w @ [S3_PutObject i pemBytes]
            \<and> ReadPrivateKey l e2 i w1 = ((Some key, None), emit (S3_GetObject i) w1)
            \<and> (\<forall>key' e3 w2. fst (fst (ReadPrivateKey l e2 i w1)) = Some key'
                  \<longrightarrow> trace (snd (SavePrivateKey l e3 i key' w2))
                        = trace w2 @ [S3_PutObject i pemBytes]))"
proof -
  from saved obtain der where m: "MarshalPKCS8PrivateKey l key = Inr der"
    by (cases "MarshalPKCS8PrivateKey l key") (auto simp: SavePrivateKey_def)
  define pemBytes where
    "pemBytes = pem_EncodeToMemory l \<lparr>Type = ''PRIVATE KEY'', Headers = [], Bytes = der\<rparr>"
  from saved m have s: "Save e1 i pemBytes w = (None, w1)"
    by (simp add: SavePrivateKey_def pemBytes_def)
  then have w1: "objects w1 i = Some pemBytes" "trace w1 = trace w @ [S3_PutObject i pemBytes]"
    by (auto simp: Save_def emit_def Let_def split: option.splits)
  from pem_law have d: "pem_Decode l pemBytes
      = Some \<lparr>Type = ''PRIVATE KEY'', Headers = [], Bytes = der\<rparr>"
    by (simp add: pemBytes_def)
  from x509_law m have p: "ParsePKCS8PrivateKey l der = Inr key"
    by blast
  from answers w1 d p
  have r: "ReadPrivateKey l e2 i w1 = ((Some key, None), emit (S3_GetObject i) w1)"
    by (simp add: ReadPrivateKey_def Read_def Let_def)
  have again: "\<And>e3 w2. trace (snd (SavePrivateKey l e3 i key w2))
                        = trace w2 @ [S3_PutObject i pemBytes]"
    using m by (simp add: SavePrivateKey_def Save_def emit_def Let_def pemBytes_def
                  split: option.splits)
  from w1 r again show ?thesis by simp
qed

theorem SavePrivateKey_ReadPrivateKey_roundtrip_witness:
  "objects (snd key_save) ''a0000000-0000-4000-8000-000000000009'' = Some ''PRIVATE KEY:RSAKEY''
   \<and> fst (ReadPrivateKey test_lib quiet_env ''a0000000-0000-4000-8000-000000000009''
            (snd key_save))
       = (Some (rsa_PrivateKey ''RSAKEY''), None)"
proof -
  have h1: "\<forall>der. pem_Decode test_lib (pem_EncodeToMemory test_lib
                       \<lparr>Type = ''PRIVATE KEY'', Headers = [], Bytes = der\<rparr>)
                     = Some \<lparr>Type = ''PRIVATE KEY'', Headers = [], Bytes = der\<rparr>"
    by (simp add: test_lib_def)
  have h2: "\<forall>k der. MarshalPKCS8PrivateKey test_lib k = Inr der
                     \<longrightarrow> ParsePKCS8PrivateKey test_lib der = Inr k"
    by (auto simp: test_lib_def split: crypto_PrivateKey.splits)
  have h3: "SavePrivateKey test_lib quiet_env ''a0000000-0000-4000-8000-000000000009''
              (rsa_PrivateKey ''RSAKEY'') empty_world = (None, snd key_save)"
    by (simp add: key_save_def account_defs)
  have h4: "GetObject_error quiet_env = None"
    by (simp add: quiet_env_def)
  have v: "objects (snd key_save) ''a0000000-0000-4000-8000-000000000009''
             = Some ''PRIVATE KEY:RSAKEY''"
    by (simp add: key_save_def account_defs)
  from SavePrivateKey_ReadPrivateKey_roundtrip [OF h1 h2 h3 h4] v
  show ?thesis
    by auto
qed

section \<open>Challenge type and DNS provider\<close>

text \<open>
  A certificate requested with challenge type \<^verbatim>\<open>dns\<close> and DNS provider \<^verbatim>\<open>route53\<close> is
  issued: the challenge setup installs the manual provider and reports no error, although
  \<^verbatim>\<open>ValidateDNSProviderConfig\<close> rejects that provider.
\<close>

theorem dns_challenge_with_route53_succeeds:
  "\<not> isl (fst route53_run)
   \<and> trace (snd route53_run) =
       [ACME_SetDNS01Provider, ACME_Obtain [''example.com'', ''*.example.com''] True,
        S3_PutObject ''c0000000-0000-4000-8000-000000000001'' ''CHAIN'']
   \<and> map_option DNSProvider (Config (projr (fst route53_run))) = Some ''route53''
   \<and> ValidateDNSProviderConfig ''route53'' \<noteq> None"
  by (simp add: route53_run_def run_defs ValidateDNSProviderConfig_def)

lemma setupDNSChallenge_Config:
  "setupDNSChallenge e (c\<lparr>Config := x\<rparr>) w =
     ((fst (fst (setupDNSChallenge e c w))\<lparr>Config := x\<rparr>, snd (fst (setupDNSChallenge e c w))),
      snd (setupDNSChallenge e c w))"
  by (simp add: setupDNSChallenge_def Let_def split: option.splits)

lemma setupDNSChallenge_installs_manual:
  assumes "snd (fst (setupDNSChallenge e c w)) = None"
  shows "\<exists>a cl. Account (fst (fst (setupDNSChallenge e c w))) = Some a \<and> Client a = Some cl
            \<and> DNS01Provider cl = Some ''manual''"
  using assms
  by (auto simp: setupDNSChallenge_def Let_def split: option.splits)

lemma setupChallenge_dns:
  "setupChallenge e (c\<lparr>Config := Some \<lparr>ChallengeType = ChallengeTypeDNS, DNSProvider = p\<rparr>\<rparr>) w =
     ((fst (fst (setupDNSChallenge e c w))
         \<lparr>Config := Some \<lparr>ChallengeType = ChallengeTypeDNS, DNSProvider = p\<rparr>\<rparr>,
       wrap ''failed to setup DNS challenge: '' (snd (fst (setupDNSChallenge e c w)))),
      snd (setupDNSChallenge e c w))"
  by (simp add: setupChallenge_def setupDNSChallenge_Config ChallengeTypeDNS_def
        ChallengeTypeHTTP_def)

text \<open>
  C5 (amended). \<^verbatim>\<open>ValidateDNSProviderConfig\<close> accepts the provider \<^verbatim>\<open>manual\<close> and
  answers every other provider with an error whose message carries the provider name. An
  unknown challenge type makes \<^verbatim>\<open>RequestNewCertificate\<close> fail with "unsupported challenge
  type: " followed by the type, before any call is made. The setup of the \<^verbatim>\<open>dns\<close>
  challenge itself never reads the DNS provider of the configuration: for every provider
  value it reports the same error or success and leaves the same state as for \<^verbatim>\<open>manual\<close>,
  the certificate it leaves differs from the one for \<^verbatim>\<open>manual\<close> only in the configuration
  it was given, and whenever it succeeds the provider installed on the client is the
  manual one.
\<close>

theorem challenge_configuration:
  "ValidateDNSProviderConfig ''manual'' = None
   \<and> (provider \<noteq> ''manual'' \<longrightarrow>
        ValidateDNSProviderConfig provider =
          Some (errors_New (''DNS provider '' @ [apostrophe] @ provider @ [apostrophe]
             @ '' not supported yet. Use '' @ [apostrophe] @ ''manual'' @ [apostrophe]
             @ '' for manual DNS record setup'')))
   \<and> (Config c = Some cfg \<and> ChallengeType cfg \<noteq> ChallengeTypeHTTP
         \<and> ChallengeType cfg \<noteq> ChallengeTypeDNS \<longrightarrow>
        RequestNewCertificate e c w =
          ((c, Some (Err (errors_New (''unsupported challenge type: '' @ ChallengeType cfg)))), w))
   \<and> snd (fst (setupChallenge e
          (c\<lparr>Config := Some \<lparr>ChallengeType = ChallengeTypeDNS, DNSProvider = provider\<rparr>\<rparr>) w))
       = snd (fst (setupChallenge e
          (c\<lparr>Config := Some \<lparr>ChallengeType = ChallengeTypeDNS, DNSProvider = ''manual''\<rparr>\<rparr>) w))
   \<and> snd (setupChallenge e
          (c\<lparr>Config := Some \<lparr>ChallengeType = ChallengeTypeDNS, DNSProvider = provider\<rparr>\<rparr>) w)
       = snd (setupChallenge e
          (c\<lparr>Config := Some \<lparr>ChallengeType = ChallengeTypeDNS, DNSProvider = ''manual''\<rparr>\<rparr>) w)
   \<and> fst (fst (setupChallenge e
          (c\<lparr>Config := Some \<lparr>ChallengeType = ChallengeTypeDNS, DNSProvider = provider\<rparr>\<rparr>) w))
       = (fst (fst (setupChallenge e
          (c\<lparr>Config := Some \<lparr>ChallengeType = ChallengeTypeDNS, DNSProvider = ''manual''\<rparr>\<rparr>) w)))
           \<lparr>Config := Some \<lparr>ChallengeType = ChallengeTypeDNS, DNSProvider = provider\<rparr>\<rparr>
   \<and> (snd (fst (setupChallenge e
          (c\<lparr>Config := Some \<lparr>ChallengeType = ChallengeTypeDNS, DNSProvider = provider\<rparr>\<rparr>) w))
         = None \<longrightarrow>
        (\<exists>a cl. Account (fst (fst (setupChallenge e
                   (c\<lparr>Config := Some \<lparr>ChallengeType = ChallengeTypeDNS,
                                       DNSProvider = provider\<rparr>\<rparr>) w))) = Some a
               \<and> Client a = Some cl \<and> DNS01Provider cl = Some ''manual''))"
proof -
  have v: "ValidateDNSProviderConfig ''manual'' = None
   \<and> (provider \<noteq> ''manual'' \<longrightarrow>
        ValidateDNSProviderConfig provider =
          Some (errors_New (''DNS provider '' @ [apostrophe] @ provider @ [apostrophe]
             @ '' not supported yet. Use '' @ [apostrophe] @ ''manual'' @ [apostrophe]
             @ '' for manual DNS record setup'')))"
    by (simp add: ValidateDNSProviderConfig_def)
  have u: "Config c = Some cfg \<and> ChallengeType cfg \<noteq> ChallengeTypeHTTP
         \<and> ChallengeType cfg \<noteq> ChallengeTypeDNS \<longrightarrow>
        RequestNewCertificate e c w =
          ((c, Some (Err (errors_New (''unsupported challenge type: '' @ ChallengeType cfg)))), w)"
    by (simp add: RequestNewCertificate_def setupChallenge_def)
  have i: "snd (fst (setupChallenge e
          (c\<lparr>Config := Some \<lparr>ChallengeType = ChallengeTypeDNS, DNSProvider = provider\<rparr>\<rparr>) w))
         = None \<longrightarrow>
        (\<exists>a cl. Account (fst (fst (setupChallenge e
                   (c\<lparr>Config := Some \<lparr>ChallengeType = ChallengeTypeDNS,
                                       DNSProvider = provider\<rparr>\<rparr>) w))) = Some a
               \<and> Client a = Some cl \<and> DNS01Provider cl = Some ''manual'')"
    using setupDNSChallenge_installs_manual[of e c w] by (simp add: setupChallenge_dns)
  from v u i show ?thesis
    by (simp add: setupChallenge_dns)
qed

theorem challenge_configuration_witness:
  "ValidateDNSProviderConfig ''manual'' = None
   \<and> map_option Error (ValidateDNSProviderConfig ''route53'') =
       Some (''DNS provider '' @ [apostrophe] @ ''route53'' @ [apostrophe]
             @ '' not supported yet. Use '' @ [apostrophe] @ ''manual'' @ [apostrophe]
             @ '' for manual DNS record setup'')
   \<and> snd (fst (RequestNewCertificate quiet_env smtp_certificate empty_world))
       = Some (Err (errors_New ''unsupported challenge type: smtp''))
   \<and> snd (RequestNewCertificate quiet_env smtp_certificate empty_world) = empty_world
   \<and> (\<exists>a cl. Account (fst (fst (setupChallenge quiet_env
                   (smtp_certificate\<lparr>Config := Some \<lparr>ChallengeType = ChallengeTypeDNS,
                                       DNSProvider = ''route53''\<rparr>\<rparr>) empty_world))) = Some a
               \<and> Client a = Some cl \<and> DNS01Provider cl = Some ''manual'')"
proof -
  have h1: "''route53'' \<noteq> ''manual''"
    by simp
  have h2: "Config smtp_certificate = Some \<lparr>ChallengeType = ''smtp'', DNSProvider = []\<rparr>
         \<and> ChallengeType \<lparr>ChallengeType = ''smtp'', DNSProvider = []\<rparr> \<noteq> ChallengeTypeHTTP
         \<and> ChallengeType \<lparr>ChallengeType = ''smtp'', DNSProvider = []\<rparr> \<noteq> ChallengeTypeDNS"
    by (simp add: smtp_certificate_def ChallengeTypeHTTP_def ChallengeTypeDNS_def)
  have h3: "snd (fst (setupChallenge quiet_env
          (smtp_certificate\<lparr>Config := Some \<lparr>ChallengeType = ChallengeTypeDNS,
                                       DNSProvider = ''route53''\<rparr>\<rparr>) empty_world)) = None"
    by (simp add: smtp_certificate_def run_defs)
  note T = challenge_configuration
         [of "''route53''" smtp_certificate "\<lparr>ChallengeType = ''smtp'', DNSProvider = []\<rparr>"
             quiet_env empty_world]
  from T h3 have i: "\<exists>a cl. Account (fst (fst (setupChallenge quiet_env
                   (smtp_certificate\<lparr>Config := Some \<lparr>ChallengeType = ChallengeTypeDNS,
                                       DNSProvider = ''route53''\<rparr>\<rparr>) empty_world))) = Some a
               \<and> Client a = Some cl \<and> DNS01Provider cl = Some ''manual''"
    by blast
  from T h1 h2 have "ValidateDNSProviderConfig ''manual'' = None
   \<and> ValidateDNSProviderConfig ''route53'' =
          Some (errors_New (''DNS provider '' @ [apostrophe] @ ''route53'' @ [apostrophe]
             @ '' not supported yet. Use '' @ [apostrophe] @ ''manual'' @ [apostrophe]
             @ '' for manual DNS record setup''))
   \<and> RequestNewCertificate quiet_env smtp_certificate empty_world =
          ((smtp_certificate, Some (Err (errors_New (''unsupported challenge type: ''
               @ ChallengeType \<lparr>ChallengeType = ''smtp'', DNSProvider = []\<rparr>)))), empty_world)"
    by blast
  with i show ?thesis
    by simp
qed

end
